theory Spec2Isabelle
  imports Complex_Main "HOL-Library.AList"
begin

section \<open>Values, errors and the library functions the converters call\<close>

text \<open>
  The module \<^verbatim>\<open>io_scene_godot/converters/simple_nodes.py\<close> is embedded function by
  function. Python floats are idealised as real numbers (no rounding, no infinities,
  no NaN), so a statement about a numeric conversion below is a statement about the
  arithmetic expression the source writes; the one conversion whose claim depends on
  rounding, the spot blend, is embedded in double precision as well. Python
  exceptions are values of
  \<open>py_error\<close>; a function that can raise returns \<open>py_error + 'a\<close>.
\<close>

type_synonym matrix = "real list list"
type_synonym color = "real list"

datatype py_value =
  PyFloat real
  | PyInt int
  | PyBool bool
  | PyStr string
  | PyColor color
  | PyMatrix matrix

datatype py_error = AttributeError string | TypeError | ZeroDivisionError

text \<open>Python's numeric tower as far as \<^verbatim>\<open>x / 100.0\<close>, \<^verbatim>\<open>x / 2\<close> and \<^verbatim>\<open>x + 0.01\<close>
  need it: floats, ints and bools are numbers, everything else raises TypeError.\<close>

fun as_number :: "py_value \<Rightarrow> real option" where
  "as_number (PyFloat x) = Some x"
| "as_number (PyInt i) = Some (real_of_int i)"
| "as_number (PyBool b) = Some (if b then 1 else 0)"
| "as_number (PyStr s) = None"
| "as_number (PyColor c) = None"
| "as_number (PyMatrix m) = None"

text \<open>The builtin \<^verbatim>\<open>abs\<close>: a float stays a float, an int or bool becomes an int.\<close>

fun py_abs :: "py_value \<Rightarrow> py_error + py_value" where
  "py_abs (PyFloat x) = Inr (PyFloat \<bar>x\<bar>)"
| "py_abs (PyInt i) = Inr (PyInt \<bar>i\<bar>)"
| "py_abs (PyBool b) = Inr (PyInt (if b then 1 else 0))"
| "py_abs (PyStr s) = Inl TypeError"
| "py_abs (PyColor c) = Inl TypeError"
| "py_abs (PyMatrix m) = Inl TypeError"

text \<open>\<^verbatim>\<open>math.degrees\<close>.\<close>

definition math_degrees :: "real \<Rightarrow> real" where
  "math_degrees x = x * (180 / pi)"

text \<open>\<^verbatim>\<open>str(n)\<close> of a non-negative integer, as \<^verbatim>\<open>"{}".format(n)\<close> prints it.\<close>

definition digit_char :: "nat \<Rightarrow> char" where
  "digit_char d = ''0123456789'' ! d"

fun str_of_nat :: "nat \<Rightarrow> string" where
  "str_of_nat n = (if n < 10 then [digit_char n] else str_of_nat (n div 10) @ [digit_char (n mod 10)])"

text \<open>\<^verbatim>\<open>sub in s\<close> on strings: \<open>sub\<close> occurs in \<open>s\<close> as a contiguous block.\<close>

fun str_contains :: "string \<Rightarrow> string \<Rightarrow> bool" where
  "str_contains sub [] = (sub = [])"
| "str_contains sub (c # cs) = (take (length sub) (c # cs) = sub \<or> str_contains sub cs)"

text \<open>\<^verbatim>\<open>file.readline()\<close> on a freshly opened text file: the text up to and including
  the first newline, or the whole text when there is none.\<close>

fun readline :: "string \<Rightarrow> string" where
  "readline [] = []"
| "readline (c # cs) = (if c = CHR 0x0A then [c] else c # readline cs)"

text \<open>\<^verbatim>\<open>os.path.join(a, b)\<close> and \<^verbatim>\<open>os.path.dirname(p)\<close> as \<^verbatim>\<open>posixpath\<close> defines them.\<close>

definition os_path_join :: "string \<Rightarrow> string \<Rightarrow> string" where
  "os_path_join a b =
     (if take 1 b = ''/'' then b
      else if a = [] \<or> last a = CHR ''/'' then a @ b
      else a @ ''/'' @ b)"

definition os_path_dirname :: "string \<Rightarrow> string" where
  "os_path_dirname p =
     (let head = rev (dropWhile (\<lambda>c. c \<noteq> CHR ''/'') (rev p))
      in if head \<noteq> [] \<and> \<not> list_all (\<lambda>c. c = CHR ''/'') head
         then rev (dropWhile (\<lambda>c. c = CHR ''/'') (rev head))
         else head)"

text \<open>
  \<^verbatim>\<open>re.match('(.*\.[te]scn)', name)\<close>, the value of \<^verbatim>\<open>match.group(1)\<close> or \<open>None\<close>.
  \<^verbatim>\<open>re.match\<close> anchors the pattern at the start of the string only. The greedy
  \<^verbatim>\<open>.*\<close> first takes every character up to the first newline (which \<^verbatim>\<open>.\<close> does not
  match) and then gives characters back one at a time until \<^verbatim>\<open>\.[te]scn\<close> matches
  at the position it has reached.
\<close>

definition scene_suffix_at :: "string \<Rightarrow> bool" where
  "scene_suffix_at s = (take 5 s = ''.tscn'' \<or> take 5 s = ''.escn'')"

fun greedy_scene_match :: "nat \<Rightarrow> string \<Rightarrow> string option" where
  "greedy_scene_match 0 s = (if scene_suffix_at s then Some (take 5 s) else None)"
| "greedy_scene_match (Suc k) s =
     (if scene_suffix_at (drop (Suc k) s) then Some (take (Suc k + 5) s)
      else greedy_scene_match k s)"

definition re_match_scene :: "string \<Rightarrow> string option" where
  "re_match_scene s = greedy_scene_match (length (takeWhile (\<lambda>c. c \<noteq> CHR 0x0A) s)) s"

section \<open>The source scene: entities and their data blocks\<close>

text \<open>The attributes of a Blender camera and light data block that the module reads.
  \<open>camera_type\<close> and \<open>light_type\<close> are the attribute \<^verbatim>\<open>type\<close> of either block, and
  \<open>cycles_cast_shadow\<close> is \<^verbatim>\<open>light.cycles.cast_shadow\<close>.\<close>

record camera =
  clip_end :: real
  clip_start :: real
  ortho_scale :: real
  camera_type :: string
  angle :: real

record light =
  light_type :: string
  specular_factor :: real
  color :: color
  shadow_color :: color
  energy :: real
  cutoff_distance :: real
  spot_size :: real
  spot_blend :: real
  use_shadow :: bool
  cycles_cast_shadow :: bool

datatype data_block = CameraData camera | LightData light

record 'd blender_object =
  name :: string
  matrix_local :: matrix
  data :: 'd

text \<open>\<^verbatim>\<open>getattr(camera, attr)\<close> and \<^verbatim>\<open>getattr(light, attr)\<close> on the attributes above:
  an attribute the data block does not have raises AttributeError. The nested
  settings object \<^verbatim>\<open>light.cycles\<close> is read only through \<open>cycles_cast_shadow\<close>.\<close>

definition camera_getattr :: "camera \<Rightarrow> string \<Rightarrow> py_error + py_value" where
  "camera_getattr c attr =
     (if attr = ''clip_end'' then Inr (PyFloat (clip_end c))
      else if attr = ''clip_start'' then Inr (PyFloat (clip_start c))
      else if attr = ''ortho_scale'' then Inr (PyFloat (ortho_scale c))
      else if attr = ''type'' then Inr (PyStr (camera_type c))
      else if attr = ''angle'' then Inr (PyFloat (angle c))
      else Inl (AttributeError attr))"

definition light_getattr :: "light \<Rightarrow> string \<Rightarrow> py_error + py_value" where
  "light_getattr l attr =
     (if attr = ''type'' then Inr (PyStr (light_type l))
      else if attr = ''specular_factor'' then Inr (PyFloat (specular_factor l))
      else if attr = ''color'' then Inr (PyColor (color l))
      else if attr = ''shadow_color'' then Inr (PyColor (shadow_color l))
      else if attr = ''energy'' then Inr (PyFloat (energy l))
      else if attr = ''cutoff_distance'' then Inr (PyFloat (cutoff_distance l))
      else if attr = ''spot_size'' then Inr (PyFloat (spot_size l))
      else if attr = ''spot_blend'' then Inr (PyFloat (spot_blend l))
      else if attr = ''use_shadow'' then Inr (PyBool (use_shadow l))
      else Inl (AttributeError attr))"

section \<open>The target document and the collaborators outside this module\<close>

text \<open>Modelled from the spec: \<^verbatim>\<open>NodeTemplate\<close> and \<^verbatim>\<open>InstanceTemplate\<close> live in
  \<^verbatim>\<open>structures.py\<close>, outside the module embedded here. A node record is
  identified by name, kind and parent and holds an ordered mapping from attribute
  name to value with unique keys, where the last write wins. An instance node refers
  to an external resource by its token instead of carrying a type.\<close>

datatype node_kind = NodeType string | InstanceOf string

datatype gd_node =
  GdNode (node_name: string) (node_kind: node_kind) (node_parent: "gd_node option")
    (contents: "(string \<times> py_value) list")

definition NodeTemplate :: "string \<Rightarrow> string \<Rightarrow> gd_node option \<Rightarrow> gd_node" where
  "NodeTemplate nm ty parent_node = GdNode nm (NodeType ty) parent_node []"

definition InstanceTemplate :: "string \<Rightarrow> string \<Rightarrow> gd_node option \<Rightarrow> gd_node" where
  "InstanceTemplate nm inst parent_node = GdNode nm (InstanceOf inst) parent_node []"

definition set_item :: "gd_node \<Rightarrow> string \<Rightarrow> py_value \<Rightarrow> gd_node" where
  "set_item n k v =
     GdNode (node_name n) (node_kind n) (node_parent n) (AList.update k v (contents n))"

definition get_item :: "gd_node \<Rightarrow> string \<Rightarrow> py_value option" where
  "get_item n k = map_of (contents n) k"

definition get_type :: "gd_node \<Rightarrow> string option" where
  "get_type n = (case node_kind n of NodeType ty \<Rightarrow> Some ty | InstanceOf inst \<Rightarrow> None)"

text \<open>Modelled from the spec: the document object (\<^verbatim>\<open>ESCNFile\<close> in \<^verbatim>\<open>structures.py\<close>,
  outside the module embedded here) with the three operations the module calls.
  \<open>add_node\<close> appends a node. External resources are registered under a logical
  name; a registration's identifier is its position in registration order, counted
  from 1, so identifiers are document-scoped, stable and fresh.
  \<open>get_external_resource\<close> returns the identifier registered under a name, or
  \<open>None\<close>.\<close>

datatype external_resource = ExternalResource (resource_path: string) (resource_type: string)

record escn_file =
  nodes :: "gd_node list"
  external_resources :: "(string \<times> external_resource) list"

fun first_index :: "string \<Rightarrow> (string \<times> 'a) list \<Rightarrow> nat option" where
  "first_index k [] = None"
| "first_index k (e # es) =
     (if fst e = k then Some 1 else map_option Suc (first_index k es))"

definition get_external_resource :: "escn_file \<Rightarrow> string \<Rightarrow> nat option" where
  "get_external_resource doc hashable = first_index hashable (external_resources doc)"

definition add_external_resource ::
  "escn_file \<Rightarrow> external_resource \<Rightarrow> string \<Rightarrow> nat \<times> escn_file" where
  "add_external_resource doc item hashable =
     (Suc (length (external_resources doc)),
      doc\<lparr>external_resources := external_resources doc @ [(hashable, item)]\<rparr>)"

text \<open>The number of registrations a document holds under a logical name.\<close>

definition registration_count :: "escn_file \<Rightarrow> string \<Rightarrow> nat" where
  "registration_count doc hashable =
     length (filter (\<lambda>e. fst e = hashable) (external_resources doc))"

text \<open>The configuration options the module reads. \<open>project_path_func\<close> is the
  value the configured callable returns.\<close>

record export_settings =
  object_types :: "string set"
  material_search_paths :: string
  project_path_func :: "string option"
  path :: string

text \<open>
  What the module takes from its surroundings: the file system as \<^verbatim>\<open>os.walk\<close> and
  \<^verbatim>\<open>open\<close> present it (the walk of a folder as its list of
  \<^verbatim>\<open>(dir_path, subdirs, files)\<close> triples in walk order, and the text of each file,
  every file the walk lists being a readable text file), the functions
  \<^verbatim>\<open>fix_directional_transform\<close> and \<^verbatim>\<open>gamma_correct\<close> of \<^verbatim>\<open>structures.py\<close>, and what
  the animation exporter writes into the document for a node it is given.
\<close>

record environment =
  os_walk :: "string \<Rightarrow> (string \<times> string list \<times> string list) list"
  file_text :: "string \<Rightarrow> string"
  fix_directional_transform :: "matrix \<Rightarrow> matrix"
  gamma_correct :: "color \<Rightarrow> color"
  animation_writer :: "gd_node \<Rightarrow> data_block \<Rightarrow> string \<Rightarrow> escn_file \<Rightarrow> escn_file"

text \<open>The state an export pass threads through the converters: the document, the
  warnings logged so far, and the calls made to the animation exporter, each with
  its target node, source data block and property category.\<close>

record export_state =
  document :: escn_file
  warnings :: "string list"
  animation_exports :: "(gd_node option \<times> data_block \<times> string) list"

definition add_node :: "export_state \<Rightarrow> gd_node \<Rightarrow> export_state" where
  "add_node st n = st\<lparr>document := (document st)\<lparr>nodes := nodes (document st) @ [n]\<rparr>\<rparr>"

definition logging_warning :: "export_state \<Rightarrow> string \<Rightarrow> export_state" where
  "logging_warning st msg = st\<lparr>warnings := warnings st @ [msg]\<rparr>"

text \<open>Modelled from the spec: \<^verbatim>\<open>export_animation_data\<close> lives in \<^verbatim>\<open>animation.py\<close>,
  outside the module embedded here. The call is recorded; with an absent
  target node it is a no-op on the document, and for a node it writes whatever the
  animation exporter writes.\<close>

definition export_animation_data ::
  "environment \<Rightarrow> export_state \<Rightarrow> export_settings \<Rightarrow> gd_node option \<Rightarrow> data_block \<Rightarrow> string
     \<Rightarrow> export_state" where
  "export_animation_data env st settings godot_node blender_object action_type =
     (let st' = st\<lparr>animation_exports :=
                     animation_exports st @ [(godot_node, blender_object, action_type)]\<rparr>
      in case godot_node of
           None \<Rightarrow> st'
         | Some n \<Rightarrow>
             st'\<lparr>document := animation_writer env n blender_object action_type (document st')\<rparr>)"

section \<open>The External Scene Resolver\<close>

text \<open>\<^verbatim>\<open>_find_scene_in_subtree\<close>, lines 15 to 36 (an Isabelle name cannot start with an
  underscore). The first loop collects a candidate path for every directory of the
  walk whose file list holds the file name; the second keeps the candidates whose
  first line contains \<^verbatim>\<open>gd_scene\<close>. The function returns its result together with
  the warnings it logs.\<close>

fun collect_candidates ::
  "(string \<times> string list \<times> string list) list \<Rightarrow> string \<Rightarrow> string list \<Rightarrow> string list" where
  "collect_candidates [] scene_filename candidates = candidates"
| "collect_candidates ((dir_path, subdirs, files) # walk) scene_filename candidates =
     collect_candidates walk scene_filename
       (if scene_filename \<in> set files
        then candidates @ [os_path_join dir_path scene_filename]
        else candidates)"

fun check_candidates ::
  "environment \<Rightarrow> string list \<Rightarrow> (string \<times> string) list \<Rightarrow> (string \<times> string) list" where
  "check_candidates env [] valid_candidates = valid_candidates"
| "check_candidates env (candidate # candidates) valid_candidates =
     check_candidates env candidates
       (let first_line = readline (file_text env candidate)
        in if str_contains ''gd_scene'' first_line
           then valid_candidates @ [(candidate, ''PackedScene'')]
           else valid_candidates)"

definition find_scene_in_subtree ::
  "environment \<Rightarrow> string \<Rightarrow> string \<Rightarrow> (string \<times> string) option \<times> string list" where
  "find_scene_in_subtree env folder scene_filename =
     (let candidates = collect_candidates (os_walk env folder) scene_filename [];
          valid_candidates = check_candidates env candidates []
      in case valid_candidates of
           [] \<Rightarrow> (None, [])
         | first_valid # others \<Rightarrow>
             (Some first_valid,
              if length valid_candidates > 1
              then [''Multiple scenes found for '' @ scene_filename]
              else []))"

text \<open>\<^verbatim>\<open>find_scene\<close>, lines 38 to 50.\<close>

definition find_scene ::
  "environment \<Rightarrow> export_settings \<Rightarrow> string \<Rightarrow> (string \<times> string) option \<times> string list" where
  "find_scene env settings scene_filename =
     (let search_type = material_search_paths settings;
          search_dir =
            (if search_type = ''PROJECT_DIR'' then project_path_func settings
             else if search_type = ''EXPORT_DIR'' then Some (os_path_dirname (path settings))
             else None)
      in case search_dir of
           None \<Rightarrow> (None, [])
         | Some dir \<Rightarrow> find_scene_in_subtree env dir scene_filename)"

section \<open>The Resource Registry Adapter\<close>

text \<open>\<^verbatim>\<open>use_external_scene\<close>, lines 52 to 67. The token is
  \<^verbatim>\<open>"ExtResource({})".format(resource_id)\<close>, and the warning of the last lines is
  \<^verbatim>\<open>"Unable to find '%s' in project"\<close> with the scene name filled in.\<close>

definition unable_to_find :: "string \<Rightarrow> string" where
  "unable_to_find scene_name =
     ''Unable to find '' @ [CHR 0x27] @ scene_name @ [CHR 0x27] @ '' in project''"

definition ext_resource_token :: "nat \<Rightarrow> string" where
  "ext_resource_token resource_id = ''ExtResource('' @ str_of_nat resource_id @ '')''"

definition use_external_scene ::
  "environment \<Rightarrow> export_state \<Rightarrow> export_settings \<Rightarrow> string \<Rightarrow> string option \<times> export_state" where
  "use_external_scene env st settings scene_name =
     (case find_scene env settings scene_name of
        (Some external_scene, logged) \<Rightarrow>
          (let st1 = st\<lparr>warnings := warnings st @ logged\<rparr>
           in case get_external_resource (document st1) scene_name of
                Some resource_id \<Rightarrow> (Some (ext_resource_token resource_id), st1)
              | None \<Rightarrow>
                  (let ext_scene = ExternalResource (fst external_scene) (snd external_scene);
                       added = add_external_resource (document st1) ext_scene scene_name
                   in (Some (ext_resource_token (fst added)), st1\<lparr>document := snd added\<rparr>)))
      | (None, logged) \<Rightarrow>
          (None,
           logging_warning (st\<lparr>warnings := warnings st @ logged\<rparr>)
             (unable_to_find scene_name)))"

section \<open>The placeholder converter\<close>

text \<open>Lines 85 to 89 of \<^verbatim>\<open>export_empty_node\<close>: the generic spatial node.\<close>

definition export_spatial_node ::
  "export_state \<Rightarrow> 'd blender_object \<Rightarrow> gd_node option \<Rightarrow> gd_node option \<times> export_state" where
  "export_spatial_node st node parent_gd_node =
     (let empty_node = NodeTemplate (name node) ''Spatial'' parent_gd_node;
          empty_node = set_item empty_node ''transform'' (PyMatrix (matrix_local node))
      in (Some empty_node, add_node st empty_node))"

text \<open>\<^verbatim>\<open>export_empty_node\<close>, lines 69 to 89. The truth test \<^verbatim>\<open>if instance:\<close> fails
  on \<open>None\<close> and on the empty string. The function returns a node or, when the
  parent it was given is absent and placeholders are filtered out, nothing.\<close>

definition export_empty_node ::
  "environment \<Rightarrow> export_state \<Rightarrow> export_settings \<Rightarrow> 'd blender_object \<Rightarrow> gd_node option
     \<Rightarrow> gd_node option \<times> export_state" where
  "export_empty_node env st settings node parent_gd_node =
     (if ''EMPTY'' \<notin> object_types settings then (parent_gd_node, st)
      else case re_match_scene (name node) of
             Some scene_name \<Rightarrow>
               (case use_external_scene env st settings scene_name of
                  (None, st1) \<Rightarrow> export_spatial_node st1 node parent_gd_node
                | (Some instance, st1) \<Rightarrow>
                    if instance \<noteq> []
                    then (let instance_node =
                                InstanceTemplate (name node) instance parent_gd_node;
                              instance_node =
                                set_item instance_node ''transform'' (PyMatrix (matrix_local node))
                          in (Some instance_node, add_node st1 instance_node))
                    else export_spatial_node st1 node parent_gd_node)
           | None \<Rightarrow> export_spatial_node st node parent_gd_node)"

section \<open>Attribute conversion tables\<close>

text \<open>An \<^verbatim>\<open>AttributeConvertInfo\<close> is the triple of the Blender attribute, the Godot
  attribute and the converter. The loop
  \<^verbatim>\<open>for item in node.attribute_conversion: node[gd_attr] = converter(getattr(data, bl_attr))\<close>
  of both converters is \<open>apply_attribute_conversion\<close>: it stops at the first error.\<close>

type_synonym AttributeConvertInfo = "string \<times> string \<times> (py_value \<Rightarrow> py_error + py_value)"

fun apply_attribute_conversion ::
  "(string \<Rightarrow> py_error + py_value) \<Rightarrow> AttributeConvertInfo list \<Rightarrow> gd_node
     \<Rightarrow> py_error + gd_node" where
  "apply_attribute_conversion getattr [] gd_node = Inr gd_node"
| "apply_attribute_conversion getattr ((bl_attr, gd_attr, converter) # items) gd_node =
     (case getattr bl_attr of
        Inl err \<Rightarrow> Inl err
      | Inr v \<Rightarrow>
          (case converter v of
             Inl err \<Rightarrow> Inl err
           | Inr converted \<Rightarrow>
               apply_attribute_conversion getattr items (set_item gd_node gd_attr converted)))"

text \<open>The converters the tables hold, each named after the lambda it embeds.\<close>

definition conv_identity :: "py_value \<Rightarrow> py_error + py_value" where
  "conv_identity x = Inr x"

text \<open>\<^verbatim>\<open>lambda x: abs(x / 100.0)\<close>\<close>

definition conv_abs_div_100 :: "py_value \<Rightarrow> py_error + py_value" where
  "conv_abs_div_100 x =
     (case as_number x of None \<Rightarrow> Inl TypeError | Some r \<Rightarrow> Inr (PyFloat \<bar>r / 100\<bar>))"

text \<open>\<^verbatim>\<open>lambda x: math.degrees(x/2)\<close>\<close>

definition conv_half_degrees :: "py_value \<Rightarrow> py_error + py_value" where
  "conv_half_degrees x =
     (case as_number x of None \<Rightarrow> Inl TypeError | Some r \<Rightarrow> Inr (PyFloat (math_degrees (r / 2))))"

text \<open>\<^verbatim>\<open>lambda x: 0.2/(x + 0.01)\<close> on the reals; a float division by zero raises.\<close>

definition conv_spot_blend :: "py_value \<Rightarrow> py_error + py_value" where
  "conv_spot_blend x =
     (case as_number x of
        None \<Rightarrow> Inl TypeError
      | Some r \<Rightarrow> if r + 0.01 = 0 then Inl ZeroDivisionError else Inr (PyFloat (0.2 / (r + 0.01))))"

text \<open>
  The same lambda in the arithmetic Python runs it in. A Python float is an IEEE 754
  binary64 number: a significand of 53 bits, and every operation returns the exact
  result rounded to the nearest such number, ties going to the even significand.
  \<open>binary64\<close> is that rounding on the reals. It leaves the exponent unbounded, so
  overflow and subnormal results are outside it; for a blend between 0 and 1 the sum
  lies between \<open>1/128\<close> and 2 and the quotient between \<open>1/8\<close> and 20
  (\<open>spot_blend_binary64_normal_range\<close> below), far from either.
  \<open>spot_blend_lambda\<close> is the lambda \<^verbatim>\<open>0.2/(x + 0.01)\<close> with the rounding of its two
  literals and its two operations as a parameter: \<open>conv_spot_blend\<close>, the converter
  the spot table holds in this embedding, is the lambda without rounding, and
  \<open>conv_spot_blend_binary64\<close> is the lambda as the code computes it on a float.
\<close>

definition round_half_even :: "real \<Rightarrow> int" where
  "round_half_even y =
     (let f = \<lfloor>y\<rfloor>
      in if y - of_int f < 1 / 2 then f
         else if 1 / 2 < y - of_int f then f + 1
         else if even f then f else f + 1)"

definition binary64 :: "real \<Rightarrow> real" where
  "binary64 x =
     (if x = 0 then 0
      else (let e = \<lfloor>log 2 \<bar>x\<bar>\<rfloor>
            in of_int (round_half_even (x * 2 powr (52 - of_int e))) * 2 powr (of_int e - 52)))"

definition spot_blend_lambda :: "(real \<Rightarrow> real) \<Rightarrow> py_value \<Rightarrow> py_error + py_value" where
  "spot_blend_lambda rnd x =
     (case as_number x of
        None \<Rightarrow> Inl TypeError
      | Some r \<Rightarrow>
          (let denominator = rnd (r + rnd 0.01)
           in if denominator = 0 then Inl ZeroDivisionError
              else Inr (PyFloat (rnd (rnd 0.2 / denominator)))))"

definition conv_spot_blend_binary64 :: "py_value \<Rightarrow> py_error + py_value" where
  "conv_spot_blend_binary64 = spot_blend_lambda binary64"

text \<open>\<^verbatim>\<open>gamma_correct\<close>, applied to a colour.\<close>

definition conv_gamma_correct :: "environment \<Rightarrow> py_value \<Rightarrow> py_error + py_value" where
  "conv_gamma_correct env x =
     (case x of PyColor c \<Rightarrow> Inr (PyColor (gamma_correct env c)) | _ \<Rightarrow> Inl TypeError)"

text \<open>\<^verbatim>\<open>CameraNode\<close>, lines 92 to 108.\<close>

definition cam_attr_conv :: "AttributeConvertInfo list" where
  "cam_attr_conv =
     [(''clip_end'', ''far'', conv_identity),
      (''clip_start'', ''near'', conv_identity),
      (''ortho_scale'', ''size'', conv_identity)]"

definition CameraNode :: "string \<Rightarrow> gd_node option \<Rightarrow> gd_node" where
  "CameraNode nm parent = NodeTemplate nm ''Camera'' parent"

text \<open>\<^verbatim>\<open>LightNode\<close>, lines 156 to 194.\<close>

definition light_attr_conv :: "environment \<Rightarrow> AttributeConvertInfo list" where
  "light_attr_conv env =
     [(''specular_factor'', ''light_specular'', conv_identity),
      (''color'', ''light_color'', conv_gamma_correct env),
      (''shadow_color'', ''shadow_color'', conv_gamma_correct env)]"

definition omni_attr_conv :: "AttributeConvertInfo list" where
  "omni_attr_conv =
     [(''energy'', ''light_energy'', conv_abs_div_100),
      (''cutoff_distance'', ''omni_range'', conv_identity)]"

definition spot_attr_conv :: "AttributeConvertInfo list" where
  "spot_attr_conv =
     [(''energy'', ''light_energy'', conv_abs_div_100),
      (''spot_size'', ''spot_angle'', conv_half_degrees),
      (''spot_blend'', ''spot_angle_attenuation'', conv_spot_blend),
      (''cutoff_distance'', ''spot_range'', conv_identity)]"

definition directional_attr_conv :: "AttributeConvertInfo list" where
  "directional_attr_conv = [(''energy'', ''light_energy'', py_abs)]"

definition LightNode :: "string \<Rightarrow> string \<Rightarrow> gd_node option \<Rightarrow> gd_node" where
  "LightNode nm ty parent = NodeTemplate nm ty parent"

definition attribute_conversion :: "environment \<Rightarrow> gd_node \<Rightarrow> AttributeConvertInfo list" where
  "attribute_conversion env self =
     (if get_type self = Some ''OmniLight'' then light_attr_conv env @ omni_attr_conv
      else if get_type self = Some ''SpotLight'' then light_attr_conv env @ spot_attr_conv
      else if get_type self = Some ''DirectionalLight''
        then light_attr_conv env @ directional_attr_conv
      else light_attr_conv env)"

section \<open>The camera and light converters\<close>

text \<open>\<^verbatim>\<open>export_camera_node\<close>, lines 111 to 135.\<close>

definition export_camera_node ::
  "environment \<Rightarrow> export_state \<Rightarrow> export_settings \<Rightarrow> camera blender_object \<Rightarrow> gd_node option
     \<Rightarrow> py_error + (gd_node \<times> export_state)" where
  "export_camera_node env st settings node parent_gd_node =
     (let cam_node = CameraNode (name node) parent_gd_node;
          camera = data node
      in case apply_attribute_conversion (camera_getattr camera) cam_attr_conv cam_node of
           Inl err \<Rightarrow> Inl err
         | Inr cam_node \<Rightarrow>
             (let cam_node =
                    (if camera_type camera = ''PERSP''
                     then set_item cam_node ''projection'' (PyInt 0)
                     else set_item cam_node ''projection'' (PyInt 1));
                  cam_node = set_item cam_node ''fov'' (PyFloat (math_degrees (angle camera)));
                  cam_node =
                    set_item cam_node ''transform''
                      (PyMatrix (fix_directional_transform env (matrix_local node)));
                  st1 = add_node st cam_node;
                  st2 = export_animation_data env st1 settings (Some cam_node)
                          (CameraData camera) ''camera''
              in Inr (cam_node, st2)))"

text \<open>\<^verbatim>\<open>export_light_node\<close>, lines 197 to 234.\<close>

definition bl_light_to_gd_light :: "(string \<times> string) list" where
  "bl_light_to_gd_light =
     [(''POINT'', ''OmniLight''), (''SPOT'', ''SpotLight''), (''SUN'', ''DirectionalLight'')]"

definition export_light_node ::
  "environment \<Rightarrow> export_state \<Rightarrow> export_settings \<Rightarrow> light blender_object \<Rightarrow> gd_node option
     \<Rightarrow> py_error + (gd_node option \<times> export_state)" where
  "export_light_node env st settings node parent_gd_node =
     (let light = data node
      in case map_of bl_light_to_gd_light (light_type light) of
           Some gd_type \<Rightarrow>
             (let light_node = LightNode (name node) gd_type parent_gd_node
              in case apply_attribute_conversion (light_getattr light)
                        (attribute_conversion env light_node) light_node of
                   Inl err \<Rightarrow> Inl err
                 | Inr light_node \<Rightarrow>
                     (let light_node =
                            set_item light_node ''transform''
                              (PyMatrix (fix_directional_transform env (matrix_local node)));
                          light_node =
                            set_item light_node ''light_negative'' (PyBool (energy light < 0));
                          light_node =
                            set_item light_node ''shadow_enabled''
                              (PyBool (use_shadow light \<and> cycles_cast_shadow light));
                          st1 = add_node st light_node
                      in Inr (Some light_node,
                              export_animation_data env st1 settings (Some light_node)
                                (LightData light) ''light'')))
         | None \<Rightarrow>
             (let st1 = logging_warning st
                          (''Unknown light type. Use Point, Spot or Sun: '' @ name node)
              in Inr (None,
                      export_animation_data env st1 settings None (LightData light) ''light'')))"

section \<open>The spec's wording, for comparison with the code\<close>



text \<open>What a conversion table makes of an energy value: the source attribute and the
  converted value of every entry that writes \<^verbatim>\<open>light_energy\<close>.\<close>

definition energy_entries ::
  "AttributeConvertInfo list \<Rightarrow> real \<Rightarrow> (string \<times> (py_error + py_value)) list" where
  "energy_entries table e =
     [(bl_attr, converter (PyFloat e)).
        (bl_attr, gd_attr, converter) \<leftarrow> table, gd_attr = ''light_energy'']"

text \<open>Names for the node records the placeholder converter builds: the generic spatial
  node, and the instance node that refers to an external resource by its token.
  Either carries the entity's name, the parent and the local transform, uncorrected.\<close>

abbreviation spatial_node :: "'d blender_object \<Rightarrow> gd_node option \<Rightarrow> gd_node" where
  "spatial_node node parent_gd_node \<equiv>
     GdNode (name node) (NodeType ''Spatial'') parent_gd_node
       [(''transform'', PyMatrix (matrix_local node))]"

abbreviation instance_node :: "'d blender_object \<Rightarrow> string \<Rightarrow> gd_node option \<Rightarrow> gd_node" where
  "instance_node node token parent_gd_node \<equiv>
     GdNode (name node) (InstanceOf token) parent_gd_node
       [(''transform'', PyMatrix (matrix_local node))]"

text \<open>A name that ends in a recognized scene-file suffix, as the spec words the
  pattern.\<close>

definition spec_ends_in_scene_suffix :: "string \<Rightarrow> bool" where
  "spec_ends_in_scene_suffix s =
     (5 \<le> length s \<and>
      (drop (length s - 5) s = ''.tscn'' \<or> drop (length s - 5) s = ''.escn''))"

text \<open>A name that holds a scene-file suffix somewhere before its first line break,
  whatever follows the suffix.\<close>

definition contains_scene_suffix :: "string \<Rightarrow> bool" where
  "contains_scene_suffix s =
     (\<exists>before suffix after.
        s = before @ suffix @ after \<and> (suffix = ''.tscn'' \<or> suffix = ''.escn'') \<and>
        CHR 0x0A \<notin> set before)"

section \<open>A small project to run the converters on\<close>

text \<open>A project directory with two copies of \<^verbatim>\<open>house.tscn\<close>, both packaged scenes, one
  packaged scene \<^verbatim>\<open>barn.escn\<close>, a file \<^verbatim>\<open>tree.escn\<close> that names the marker on its second
  line only, and a text file.\<close>

definition example_env :: environment where
  "example_env =
     \<lparr>os_walk = (\<lambda>folder.
         if folder = ''/proj''
         then [(''/proj'', [''scenes''], [''house.tscn'', ''notes.txt'']),
               (''/proj/scenes'', [], [''house.tscn'', ''tree.escn'', ''barn.escn''])]
         else []),
      file_text = (\<lambda>p.
         if p = ''/proj/house.tscn''
           then ''[gd_scene load_steps=2 format=2]'' @ [CHR 0x0A] @ ''[node name=house]''
         else if p = ''/proj/scenes/house.tscn'' then ''[gd_scene format=2]''
         else if p = ''/proj/scenes/barn.escn'' then ''[gd_scene load_steps=1 format=2]''
         else if p = ''/proj/scenes/tree.escn''
           then ''[gd_resource type=Mesh]'' @ [CHR 0x0A] @ ''gd_scene''
         else []),
      fix_directional_transform = (\<lambda>m. m),
      gamma_correct = (\<lambda>c. c),
      animation_writer = (\<lambda>n d a doc. doc)\<rparr>"

definition example_settings :: export_settings where
  "example_settings =
     \<lparr>object_types = {''EMPTY'', ''CAMERA'', ''LIGHT''},
      material_search_paths = ''PROJECT_DIR'',
      project_path_func = Some ''/proj'',
      path = ''/proj/export/scene.escn''\<rparr>"

definition empty_state :: export_state where
  "empty_state =
     \<lparr>document = \<lparr>nodes = [], external_resources = []\<rparr>, warnings = [], animation_exports = []\<rparr>"

definition example_camera :: "string \<Rightarrow> camera blender_object" where
  "example_camera ty =
     \<lparr>name = ''Camera'', matrix_local = [],
      data = \<lparr>clip_end = 100, clip_start = 0.1, ortho_scale = 6, camera_type = ty, angle = 1\<rparr>\<rparr>"

definition example_light :: "string \<Rightarrow> real \<Rightarrow> light blender_object" where
  "example_light ty e =
     \<lparr>name = ''Lamp'', matrix_local = [],
      data = \<lparr>light_type = ty, specular_factor = 1, color = [1, 1, 1], shadow_color = [0, 0, 0],
              energy = e, cutoff_distance = 40, spot_size = 2, spot_blend = 0.15,
              use_shadow = True, cycles_cast_shadow = True\<rparr>\<rparr>"

definition example_empty :: "string \<Rightarrow> unit blender_object" where
  "example_empty nm = \<lparr>name = nm, matrix_local = [], data = ()\<rparr>"

section \<open>Basic facts about nodes, strings and the resolver's loops\<close>

lemma get_item_set_item:
  "get_item (set_item n k v) k' = (if k' = k then Some v else get_item n k')"
  by (simp add: get_item_def set_item_def update_conv')

lemma get_type_set_item: "get_type (set_item n k v) = get_type n"
  by (simp add: get_type_def set_item_def)

lemma get_type_NodeTemplate: "get_type (NodeTemplate nm ty p) = Some ty"
  by (simp add: get_type_def NodeTemplate_def)

lemma get_item_NodeTemplate: "get_item (NodeTemplate nm ty p) k = None"
  by (simp add: get_item_def NodeTemplate_def)

lemma camera_table_applies:
  "apply_attribute_conversion (camera_getattr c) cam_attr_conv n =
     Inr (set_item (set_item (set_item n ''far'' (PyFloat (clip_end c)))
            ''near'' (PyFloat (clip_start c))) ''size'' (PyFloat (ortho_scale c)))"
  by (simp add: cam_attr_conv_def camera_getattr_def conv_identity_def)

lemma energy_entries_light_attr_conv:
  "energy_entries (light_attr_conv env @ t) e = energy_entries t e"
  by (simp add: energy_entries_def light_attr_conv_def)





section \<open>The registry, the name pattern and the converters, case by case\<close>

lemma first_index_append:
  "first_index k (es @ [e]) =
     (case first_index k es of
        Some i \<Rightarrow> Some i
      | None \<Rightarrow> if fst e = k then Some (Suc (length es)) else None)"
  by (induction es) (auto split: option.splits)

lemma first_index_None_iff: "first_index k es = None \<longleftrightarrow> filter (\<lambda>e. fst e = k) es = []"
  by (induction es) auto

lemma find_scene_found:
  assumes "fst (find_scene env settings scene_name) = Some external_scene"
  shows "find_scene env settings scene_name =
           (Some external_scene, snd (find_scene env settings scene_name))"
  using assms by (metis prod.collapse)

lemma use_external_scene_registered:
  assumes "fst (find_scene env settings scene_name) = Some external_scene"
      and "get_external_resource (document st) scene_name = Some resource_id"
  shows "use_external_scene env st settings scene_name =
           (Some (ext_resource_token resource_id),
            st\<lparr>warnings := warnings st @ snd (find_scene env settings scene_name)\<rparr>)"
  using assms(2) unfolding use_external_scene_def
  by (subst find_scene_found [OF assms(1)]) (simp add: Let_def)

lemma use_external_scene_fresh:
  assumes "fst (find_scene env settings scene_name) = Some external_scene"
      and "get_external_resource (document st) scene_name = None"
  shows "use_external_scene env st settings scene_name =
           (Some (ext_resource_token (Suc (length (external_resources (document st))))),
            st\<lparr>warnings := warnings st @ snd (find_scene env settings scene_name),
               document := (document st)\<lparr>external_resources :=
                  external_resources (document st) @
                    [(scene_name, ExternalResource (fst external_scene) (snd external_scene))]\<rparr>\<rparr>)"
  using assms(2) unfolding use_external_scene_def
  by (subst find_scene_found [OF assms(1)]) (simp add: Let_def add_external_resource_def)

lemma find_scene_in_subtree_quiet:
  "fst (find_scene_in_subtree env folder scene_filename) = None \<Longrightarrow>
   find_scene_in_subtree env folder scene_filename = (None, [])"
  by (simp add: find_scene_in_subtree_def Let_def split: list.splits)

lemma find_scene_quiet:
  "fst (find_scene env settings scene_filename) = None \<Longrightarrow>
   find_scene env settings scene_filename = (None, [])"
  by (auto simp: find_scene_def Let_def find_scene_in_subtree_quiet split: option.splits)

lemma use_external_scene_not_found:
  assumes "fst (find_scene env settings scene_name) = None"
  shows "use_external_scene env st settings scene_name =
           (None, logging_warning st (unable_to_find scene_name))"
  unfolding use_external_scene_def find_scene_quiet [OF assms]
  by simp

lemma ext_resource_token_nonempty: "ext_resource_token resource_id \<noteq> []"
  by (simp add: ext_resource_token_def)

lemma use_external_scene_found:
  assumes "fst (find_scene env settings scene_name) = Some external_scene"
  shows "\<exists>resource_id st1.
           use_external_scene env st settings scene_name =
             (Some (ext_resource_token resource_id), st1) \<and>
           animation_exports st1 = animation_exports st \<and>
           nodes (document st1) = nodes (document st) \<and>
           external_resources (document st1) =
             (case get_external_resource (document st) scene_name of
                Some registered \<Rightarrow> external_resources (document st)
              | None \<Rightarrow>
                  external_resources (document st) @
                    [(scene_name, ExternalResource (fst external_scene) (snd external_scene))])"
proof (cases "get_external_resource (document st) scene_name")
  case None
  show ?thesis
    unfolding use_external_scene_fresh [OF assms None] using None by auto
next
  case (Some rid)
  show ?thesis
    unfolding use_external_scene_registered [OF assms Some] using Some by auto
qed

lemma scene_suffix_at_length:
  assumes "scene_suffix_at s"
  shows "5 \<le> length s"
proof -
  from assms consider "take 5 s = ''.tscn''" | "take 5 s = ''.escn''"
    unfolding scene_suffix_at_def by blast
  then have "length (take 5 s) = 5"
  proof cases
    case 1
    have "length (take 5 s) = length ''.tscn''" by (simp only: 1)
    then show ?thesis by simp
  next
    case 2
    have "length (take 5 s) = length ''.escn''" by (simp only: 2)
    then show ?thesis by simp
  qed
  then show ?thesis by simp
qed

lemma greedy_scene_match_None:
  "greedy_scene_match k s = None \<longleftrightarrow> (\<forall>j\<le>k. \<not> scene_suffix_at (drop j s))"
proof (induction k)
  case 0
  then show ?case by simp
next
  case (Suc k)
  then show ?case by (auto simp: le_Suc_eq)
qed

lemma greedy_scene_match_Some:
  "greedy_scene_match k s = Some r \<Longrightarrow>
     \<exists>j\<le>k. r = take (j + 5) s \<and> scene_suffix_at (drop j s) \<and>
            (\<forall>i. j < i \<and> i \<le> k \<longrightarrow> \<not> scene_suffix_at (drop i s))"
proof (induction k)
  case 0
  then show ?case by (auto split: if_splits)
next
  case (Suc k)
  show ?case
  proof (cases "scene_suffix_at (drop (Suc k) s)")
    case True
    then have "r = take (Suc k + 5) s" using Suc.prems by simp
    then show ?thesis using True by (intro exI [of _ "Suc k"]) auto
  next
    case False
    then have "greedy_scene_match k s = Some r" using Suc.prems by simp
    then obtain j where j: "j \<le> k" "r = take (j + 5) s" "scene_suffix_at (drop j s)"
      "\<forall>i. j < i \<and> i \<le> k \<longrightarrow> \<not> scene_suffix_at (drop i s)"
      using Suc.IH by blast
    have "\<forall>i. j < i \<and> i \<le> Suc k \<longrightarrow> \<not> scene_suffix_at (drop i s)"
      using j(4) False by (auto simp: le_Suc_eq)
    then show ?thesis using j by (intro exI [of _ j]) auto
  qed
qed

lemma scene_suffix_at_iff:
  "scene_suffix_at (drop j s) \<longleftrightarrow>
     (\<exists>before suffix after. s = before @ suffix @ after \<and> length before = j \<and>
        (suffix = ''.tscn'' \<or> suffix = ''.escn''))"
proof
  assume a: "scene_suffix_at (drop j s)"
  then have len: "j + 5 \<le> length s" using scene_suffix_at_length [OF a] by simp
  have split: "s = take j s @ take 5 (drop j s) @ drop 5 (drop j s)"
    by (simp only: append_take_drop_id)
  have "length (take j s) = j" using len by simp
  moreover have "take 5 (drop j s) = ''.tscn'' \<or> take 5 (drop j s) = ''.escn''"
    using a by (simp only: scene_suffix_at_def)
  ultimately show "\<exists>before suffix after. s = before @ suffix @ after \<and> length before = j \<and>
        (suffix = ''.tscn'' \<or> suffix = ''.escn'')"
    using split by blast
next
  assume "\<exists>before suffix after. s = before @ suffix @ after \<and> length before = j \<and>
        (suffix = ''.tscn'' \<or> suffix = ''.escn'')"
  then obtain before suffix after where s: "s = before @ suffix @ after" "length before = j"
    and suf: "suffix = ''.tscn'' \<or> suffix = ''.escn''" by blast
  have "length suffix = 5" using suf by auto
  then have "take 5 (drop j s) = suffix" using s by simp
  then show "scene_suffix_at (drop j s)" using suf by (simp only: scene_suffix_at_def)
qed

lemma first_line_prefix:
  assumes "j \<le> length (takeWhile (\<lambda>c. c \<noteq> CHR 0x0A) s)"
  shows "CHR 0x0A \<notin> set (take j s)"
proof -
  have "take j s = take j (takeWhile (\<lambda>c. c \<noteq> CHR 0x0A) s @ dropWhile (\<lambda>c. c \<noteq> CHR 0x0A) s)"
    by simp
  also have "\<dots> = take j (takeWhile (\<lambda>c. c \<noteq> CHR 0x0A) s)"
    using assms by (simp only: take_append) simp
  finally have "set (take j s) \<subseteq> set (takeWhile (\<lambda>c. c \<noteq> CHR 0x0A) s)"
    by (simp add: set_take_subset)
  then show ?thesis by (auto dest: set_takeWhileD)
qed

lemma first_line_covers:
  assumes "CHR 0x0A \<notin> set before"
  shows "length before \<le> length (takeWhile (\<lambda>c. c \<noteq> CHR 0x0A) (before @ rest))"
proof -
  have "takeWhile (\<lambda>c. c \<noteq> CHR 0x0A) (before @ rest) =
          before @ takeWhile (\<lambda>c. c \<noteq> CHR 0x0A) rest"
    using assms by (intro takeWhile_append2) auto
  then show ?thesis by simp
qed

lemma re_match_scene_iff: "re_match_scene s \<noteq> None \<longleftrightarrow> contains_scene_suffix s"
proof
  assume "re_match_scene s \<noteq> None"
  then obtain j where j: "j \<le> length (takeWhile (\<lambda>c. c \<noteq> CHR 0x0A) s)"
    and at: "scene_suffix_at (drop j s)"
    unfolding re_match_scene_def greedy_scene_match_None by blast
  from at obtain before suffix after where s: "s = before @ suffix @ after"
    and len: "length before = j" and suf: "suffix = ''.tscn'' \<or> suffix = ''.escn''"
    unfolding scene_suffix_at_iff by blast
  have "before = take j s" using s len by simp
  then have "CHR 0x0A \<notin> set before" using first_line_prefix [OF j] by simp
  then show "contains_scene_suffix s"
    unfolding contains_scene_suffix_def using s suf by blast
next
  assume "contains_scene_suffix s"
  then obtain before suffix after where s: "s = before @ suffix @ after"
    and suf: "suffix = ''.tscn'' \<or> suffix = ''.escn''" and nl: "CHR 0x0A \<notin> set before"
    unfolding contains_scene_suffix_def by blast
  have "length before \<le> length (takeWhile (\<lambda>c. c \<noteq> CHR 0x0A) s)"
    unfolding s by (rule first_line_covers [OF nl])
  moreover have "scene_suffix_at (drop (length before) s)"
    unfolding scene_suffix_at_iff using s suf by blast
  ultimately show "re_match_scene s \<noteq> None"
    unfolding re_match_scene_def greedy_scene_match_None by blast
qed

lemma re_match_scene_Some:
  assumes "re_match_scene s = Some scene_name"
  shows "\<exists>before suffix after.
           s = before @ suffix @ after \<and> scene_name = before @ suffix \<and>
           (suffix = ''.tscn'' \<or> suffix = ''.escn'') \<and> CHR 0x0A \<notin> set before"
proof -
  from assms obtain j where j: "j \<le> length (takeWhile (\<lambda>c. c \<noteq> CHR 0x0A) s)"
    and r: "scene_name = take (j + 5) s" and at: "scene_suffix_at (drop j s)"
    unfolding re_match_scene_def using greedy_scene_match_Some by blast
  from at obtain before suffix after where s: "s = before @ suffix @ after"
    and len: "length before = j" and suf: "suffix = ''.tscn'' \<or> suffix = ''.escn''"
    unfolding scene_suffix_at_iff by blast
  have "length suffix = 5" using suf by auto
  then have "scene_name = before @ suffix" using r s len by simp
  moreover have "before = take j s" using s len by simp
  then have "CHR 0x0A \<notin> set before" using first_line_prefix [OF j] by simp
  ultimately show ?thesis using s suf by blast
qed

lemma re_match_scene_last:
  assumes m: "re_match_scene s = Some scene_name"
      and occ: "s = before' @ suffix' @ after'"
      and suf: "suffix' = ''.tscn'' \<or> suffix' = ''.escn''"
      and nl: "CHR 0x0A \<notin> set before'"
  shows "length (before' @ suffix') \<le> length scene_name"
proof -
  let ?L = "length (takeWhile (\<lambda>c. c \<noteq> CHR 0x0A) s)"
  from m obtain j where j: "j \<le> ?L" "scene_name = take (j + 5) s" "scene_suffix_at (drop j s)"
    and top: "\<forall>i. j < i \<and> i \<le> ?L \<longrightarrow> \<not> scene_suffix_at (drop i s)"
    unfolding re_match_scene_def using greedy_scene_match_Some by blast
  have within: "length before' \<le> ?L"
    unfolding occ by (rule first_line_covers [OF nl])
  have "scene_suffix_at (drop (length before') s)"
    unfolding scene_suffix_at_iff using occ suf by blast
  then have "\<not> j < length before'" using top within by blast
  moreover have "length scene_name = j + 5"
    using j(2) scene_suffix_at_length [OF j(3)] by simp
  moreover have "length suffix' = 5" using suf by auto
  ultimately show ?thesis by simp
qed

lemma re_match_scene_whole_name:
  assumes ends: "spec_ends_in_scene_suffix s" and nl: "CHR 0x0A \<notin> set s"
  shows "re_match_scene s = Some s"
proof -
  let ?L = "length (takeWhile (\<lambda>c. c \<noteq> CHR 0x0A) s)"
  have "takeWhile (\<lambda>c. c \<noteq> CHR 0x0A) s = s"
    using nl by (induction s) auto
  then have L: "?L = length s" by (simp only:)
  have len: "5 \<le> length s" using ends by (simp add: spec_ends_in_scene_suffix_def)
  have "take 5 (drop (length s - 5) s) = drop (length s - 5) s" using len by simp
  then have at: "scene_suffix_at (drop (length s - 5) s)"
    using ends by (simp add: spec_ends_in_scene_suffix_def scene_suffix_at_def)
  then have "greedy_scene_match ?L s \<noteq> None"
    unfolding greedy_scene_match_None L by (metis diff_le_self)
  then obtain r where r: "greedy_scene_match ?L s = Some r" by blast
  then obtain j where j: "j \<le> length s" "r = take (j + 5) s" "scene_suffix_at (drop j s)"
    and top: "\<forall>i. j < i \<and> i \<le> length s \<longrightarrow> \<not> scene_suffix_at (drop i s)"
    using greedy_scene_match_Some [OF r] unfolding L by blast
  have "j + 5 \<le> length s" using scene_suffix_at_length [OF j(3)] by simp
  moreover have "\<not> j < length s - 5" using top at by (metis diff_le_self)
  ultimately have "j + 5 = length s" using len by linarith
  then have "r = s" using j(2) by simp
  then show ?thesis using r by (simp add: re_match_scene_def)
qed

lemma export_spatial_node_eq:
  "export_spatial_node st node parent_gd_node =
     (Some (spatial_node node parent_gd_node), add_node st (spatial_node node parent_gd_node))"
  by (simp add: export_spatial_node_def NodeTemplate_def set_item_def Let_def)

lemma export_empty_node_no_match:
  assumes "''EMPTY'' \<in> object_types settings" and "re_match_scene (name node) = None"
  shows "export_empty_node env st settings node parent_gd_node =
           (Some (spatial_node node parent_gd_node), add_node st (spatial_node node parent_gd_node))"
  using assms by (simp add: export_empty_node_def export_spatial_node_eq)

lemma export_empty_node_not_found:
  assumes "''EMPTY'' \<in> object_types settings"
      and "re_match_scene (name node) = Some scene_name"
      and "fst (find_scene env settings scene_name) = None"
  shows "export_empty_node env st settings node parent_gd_node =
           (Some (spatial_node node parent_gd_node),
            add_node (logging_warning st (unable_to_find scene_name))
              (spatial_node node parent_gd_node))"
  using assms(1,2)
  by (simp add: export_empty_node_def use_external_scene_not_found [OF assms(3)]
      export_spatial_node_eq)

lemma export_empty_node_instance:
  assumes "''EMPTY'' \<in> object_types settings"
      and "re_match_scene (name node) = Some scene_name"
      and "use_external_scene env st settings scene_name = (Some (ext_resource_token rid), st1)"
  shows "export_empty_node env st settings node parent_gd_node =
           (Some (instance_node node (ext_resource_token rid) parent_gd_node),
            add_node st1 (instance_node node (ext_resource_token rid) parent_gd_node))"
  using assms
  by (simp add: export_empty_node_def ext_resource_token_nonempty
      InstanceTemplate_def set_item_def Let_def)

lemma light_base_applies:
  "apply_attribute_conversion (light_getattr l) (light_attr_conv env @ t) n =
     apply_attribute_conversion (light_getattr l) t
       (set_item (set_item (set_item n ''light_specular'' (PyFloat (specular_factor l)))
          ''light_color'' (PyColor (gamma_correct env (color l))))
          ''shadow_color'' (PyColor (gamma_correct env (shadow_color l))))"
  by (simp add: light_attr_conv_def light_getattr_def conv_identity_def conv_gamma_correct_def)

lemma omni_applies:
  "apply_attribute_conversion (light_getattr l) omni_attr_conv n =
     Inr (set_item (set_item n ''light_energy'' (PyFloat \<bar>energy l / 100\<bar>))
            ''omni_range'' (PyFloat (cutoff_distance l)))"
  by (simp add: omni_attr_conv_def light_getattr_def conv_identity_def conv_abs_div_100_def)

lemma spot_applies:
  "spot_blend l + 0.01 \<noteq> 0 \<Longrightarrow>
   apply_attribute_conversion (light_getattr l) spot_attr_conv n =
     Inr (set_item (set_item (set_item (set_item n
            ''light_energy'' (PyFloat \<bar>energy l / 100\<bar>))
            ''spot_angle'' (PyFloat (math_degrees (spot_size l / 2))))
            ''spot_angle_attenuation'' (PyFloat (0.2 / (spot_blend l + 0.01))))
            ''spot_range'' (PyFloat (cutoff_distance l)))"
  by (simp add: spot_attr_conv_def light_getattr_def conv_identity_def conv_abs_div_100_def
      conv_half_degrees_def conv_spot_blend_def)

lemma directional_applies:
  "apply_attribute_conversion (light_getattr l) directional_attr_conv n =
     Inr (set_item n ''light_energy'' (PyFloat \<bar>energy l\<bar>))"
  by (simp add: directional_attr_conv_def light_getattr_def)

lemma export_light_node_point:
  assumes "light_type (data node) = ''POINT''"
  shows "\<exists>ln st'. export_light_node env st settings node parent_gd_node = Inr (Some ln, st') \<and>
           get_type ln = Some ''OmniLight'' \<and>
           get_item ln ''light_energy'' = Some (PyFloat \<bar>energy (data node) / 100\<bar>)"
  using assms
  by (simp add: export_light_node_def bl_light_to_gd_light_def Let_def LightNode_def
      attribute_conversion_def get_type_NodeTemplate light_base_applies omni_applies
      get_type_set_item get_item_set_item)

lemma export_light_node_spot:
  assumes "light_type (data node) = ''SPOT''" and "spot_blend (data node) + 0.01 \<noteq> 0"
  shows "\<exists>ln st'. export_light_node env st settings node parent_gd_node = Inr (Some ln, st') \<and>
           get_type ln = Some ''SpotLight'' \<and>
           get_item ln ''light_energy'' = Some (PyFloat \<bar>energy (data node) / 100\<bar>)"
  using assms
  by (simp add: export_light_node_def bl_light_to_gd_light_def Let_def LightNode_def
      attribute_conversion_def get_type_NodeTemplate light_base_applies spot_applies
      get_type_set_item get_item_set_item)

lemma export_light_node_sun:
  assumes "light_type (data node) = ''SUN''"
  shows "\<exists>ln st'. export_light_node env st settings node parent_gd_node = Inr (Some ln, st') \<and>
           get_type ln = Some ''DirectionalLight'' \<and>
           get_item ln ''light_energy'' = Some (PyFloat \<bar>energy (data node)\<bar>)"
  using assms
  by (simp add: export_light_node_def bl_light_to_gd_light_def Let_def LightNode_def
      attribute_conversion_def get_type_NodeTemplate light_base_applies directional_applies
      get_type_set_item get_item_set_item)

lemma light_kind_cases:
  assumes "map_of bl_light_to_gd_light ty = Some gd_type"
  shows "ty = ''POINT'' \<or> ty = ''SPOT'' \<or> ty = ''SUN''"
  using assms by (simp add: bl_light_to_gd_light_def split: if_splits)

lemma export_light_node_returns:
  assumes "spot_blend (data node) + 0.01 \<noteq> 0"
  shows "\<exists>r st'. export_light_node env st settings node parent_gd_node = Inr (r, st')"
proof (cases "map_of bl_light_to_gd_light (light_type (data node))")
  case None
  then show ?thesis by (simp add: export_light_node_def Let_def)
next
  case (Some gd_type)
  from light_kind_cases [OF Some] show ?thesis
    using export_light_node_point [of node env st settings parent_gd_node]
      export_light_node_spot [OF _ assms, of env st settings parent_gd_node]
      export_light_node_sun [of node env st settings parent_gd_node]
    by blast
qed

lemma export_light_node_delegates:
  assumes "export_light_node env st settings node parent_gd_node = Inr (r, st')"
  shows "animation_exports st' = animation_exports st @ [(r, LightData (data node), ''light'')]"
  using assms
  by (auto simp: export_light_node_def Let_def export_animation_data_def add_node_def
      logging_warning_def split: option.splits sum.splits)

lemma export_camera_node_delegates:
  "\<exists>cam st'. export_camera_node env st settings node parent_gd_node = Inr (cam, st') \<and>
     animation_exports st' = animation_exports st @ [(Some cam, CameraData (data node), ''camera'')]"
  by (simp add: export_camera_node_def camera_table_applies Let_def export_animation_data_def
      add_node_def)

section \<open>Rounding to binary64 and the spot blend lambda in double precision\<close>

lemma round_half_even_bounds: "\<lfloor>y\<rfloor> \<le> round_half_even y \<and> round_half_even y \<le> \<lfloor>y\<rfloor> + 1"
  by (simp add: round_half_even_def Let_def)

lemma round_half_even_of_int: "round_half_even (of_int n) = n"
  by (simp add: round_half_even_def)

lemma round_half_even_mono:
  assumes "y \<le> z"
  shows "round_half_even y \<le> round_half_even z"
proof (cases "\<lfloor>y\<rfloor> = \<lfloor>z\<rfloor>")
  case True
  then show ?thesis using assms by (auto simp: round_half_even_def Let_def)
next
  case False
  then have "\<lfloor>y\<rfloor> + 1 \<le> \<lfloor>z\<rfloor>" using floor_mono [OF assms] by linarith
  then show ?thesis
    using round_half_even_bounds [of y] round_half_even_bounds [of z] by linarith
qed

lemma round_half_even_nearest:
  assumes "of_int n - 1 / 2 < y" and "y < of_int n + 1 / 2"
  shows "round_half_even y = n"
proof (cases "of_int n \<le> y")
  case True
  then have "\<lfloor>y\<rfloor> = n" using assms by (intro floor_unique) auto
  then show ?thesis using assms True by (simp add: round_half_even_def)
next
  case False
  then have "\<lfloor>y\<rfloor> = n - 1" using assms by (intro floor_unique) auto
  then show ?thesis using assms False by (simp add: round_half_even_def)
qed

lemma binary64_exponent:
  fixes e :: int
  assumes "0 < x" and "2 powr of_int e \<le> x" and "x < 2 powr (of_int e + 1)"
  shows "binary64 x =
           of_int (round_half_even (x * 2 powr (52 - of_int e))) * 2 powr (of_int e - 52)"
proof -
  have "\<lfloor>log 2 x\<rfloor> = e"
    using assms by (simp add: floor_log_eq_powr_iff)
  then show ?thesis using assms(1) by (simp add: binary64_def)
qed

lemma binary64_range:
  fixes e :: int
  assumes "0 < x" and lo: "2 powr of_int e \<le> x" and hi: "x < 2 powr (of_int e + 1)"
  shows "2 powr of_int e \<le> binary64 x \<and> binary64 x \<le> 2 powr (of_int e + 1)"
proof -
  define u :: real where "u = 2 powr (of_int e - 52)"
  define y where "y = x * 2 powr (52 - of_int e)"
  have scale: "0 < (2::real) powr (52 - of_int e)" and u: "0 < u" by (simp_all add: u_def)
  have "2 powr of_int e * 2 powr (52 - of_int e) \<le> y"
    unfolding y_def using lo scale by (simp only: mult_le_cancel_right_pos)
  then have ylo: "of_int (2 ^ 52) \<le> y"
    by (simp add: powr_add [symmetric])
  have "y < 2 powr (of_int e + 1) * 2 powr (52 - of_int e)"
    unfolding y_def using hi scale by (simp only: mult_less_cancel_right_pos)
  then have yhi: "y \<le> of_int (2 ^ 53)"
    by (simp add: powr_add [symmetric])
  have rlo: "2 ^ 52 \<le> round_half_even y"
    using round_half_even_mono [OF ylo] by (simp only: round_half_even_of_int)
  have rhi: "round_half_even y \<le> 2 ^ 53"
    using round_half_even_mono [OF yhi] by (simp only: round_half_even_of_int)
  have "real_of_int (2 ^ 52) \<le> real_of_int (round_half_even y)"
    using rlo by (simp only: of_int_le_iff)
  then have below: "real_of_int (2 ^ 52) * u \<le> real_of_int (round_half_even y) * u"
    using u by (simp only: mult_le_cancel_right_pos)
  have "real_of_int (round_half_even y) \<le> real_of_int (2 ^ 53)"
    using rhi by (simp only: of_int_le_iff)
  then have above: "real_of_int (round_half_even y) * u \<le> real_of_int (2 ^ 53) * u"
    using u by (simp only: mult_le_cancel_right_pos)
  have "(2::real) powr 52 * 2 powr (of_int e - 52) = 2 powr (52 + (of_int e - 52))"
    by (rule powr_add [symmetric])
  moreover have "52 + (real_of_int e - 52) = of_int e" by simp
  ultimately have "(2::real) powr 52 * 2 powr (of_int e - 52) = 2 powr of_int e"
    by (simp only:)
  then have bottom: "real_of_int (2 ^ 52) * u = 2 powr of_int e"
    by (simp add: u_def)
  have "(2::real) powr 53 * 2 powr (of_int e - 52) = 2 powr (53 + (of_int e - 52))"
    by (rule powr_add [symmetric])
  moreover have "53 + (real_of_int e - 52) = of_int e + 1" by simp
  ultimately have "(2::real) powr 53 * 2 powr (of_int e - 52) = 2 powr (of_int e + 1)"
    by (simp only:)
  then have top: "real_of_int (2 ^ 53) * u = 2 powr (of_int e + 1)"
    by (simp add: u_def)
  have "binary64 x = real_of_int (round_half_even y) * u"
    unfolding binary64_exponent [OF assms] y_def u_def by (rule refl)
  then show ?thesis using below above bottom top by simp
qed

lemma binary64_positive:
  assumes "0 < x"
  shows "0 < binary64 x"
proof -
  define e where "e = \<lfloor>log 2 x\<rfloor>"
  have "2 powr of_int e \<le> x \<and> x < 2 powr (of_int e + 1)"
    using assms floor_log_eq_powr_iff [of x 2 e] by (simp add: e_def)
  then have "2 powr of_int e \<le> binary64 x"
    using binary64_range [OF assms, of e] by blast
  moreover have "0 < (2::real) powr of_int e" by simp
  ultimately show ?thesis by linarith
qed

lemma binary64_mono:
  assumes "0 < x" and "x \<le> y"
  shows "binary64 x \<le> binary64 y"
proof -
  define ex where "ex = \<lfloor>log 2 x\<rfloor>"
  define ey where "ey = \<lfloor>log 2 y\<rfloor>"
  have ypos: "0 < y" using assms by linarith
  have bx: "2 powr of_int ex \<le> x" "x < 2 powr (of_int ex + 1)"
    using assms(1) floor_log_eq_powr_iff [of x 2 ex] by (simp_all add: ex_def)
  have by': "2 powr of_int ey \<le> y" "y < 2 powr (of_int ey + 1)"
    using ypos floor_log_eq_powr_iff [of y 2 ey] by (simp_all add: ey_def)
  have "log 2 x \<le> log 2 y" using assms by simp
  then have le: "ex \<le> ey" unfolding ex_def ey_def by (rule floor_mono)
  show ?thesis
  proof (cases "ex = ey")
    case True
    have "x * 2 powr (52 - of_int ey) \<le> y * 2 powr (52 - of_int ey)"
      using assms(2) by simp
    then have "round_half_even (x * 2 powr (52 - of_int ey)) \<le>
        round_half_even (y * 2 powr (52 - of_int ey))"
      by (rule round_half_even_mono)
    then have "real_of_int (round_half_even (x * 2 powr (52 - of_int ey))) * 2 powr (of_int ey - 52)
        \<le> real_of_int (round_half_even (y * 2 powr (52 - of_int ey))) * 2 powr (of_int ey - 52)"
      by simp
    then show ?thesis
      using binary64_exponent [OF assms(1) bx] binary64_exponent [OF ypos by'] True by simp
  next
    case False
    then have "ex + 1 \<le> ey" using le by linarith
    then have "(2::real) powr (of_int ex + 1) \<le> 2 powr of_int ey"
      by (simp add: powr_mono)
    moreover have "binary64 x \<le> 2 powr (of_int ex + 1)"
      using binary64_range [OF assms(1) bx] by blast
    moreover have "2 powr of_int ey \<le> binary64 y"
      using binary64_range [OF ypos by'] by blast
    ultimately show ?thesis by linarith
  qed
qed

lemma conv_spot_blend_unrounded: "conv_spot_blend x = spot_blend_lambda (\<lambda>r. r) x"
  by (cases "as_number x") (simp_all add: conv_spot_blend_def spot_blend_lambda_def Let_def)

lemma binary64_nearest:
  fixes e n :: int
  assumes "0 < x" and "2 powr of_int e \<le> x" and "x < 2 powr (of_int e + 1)"
      and "of_int n - 1 / 2 < x * 2 powr (52 - of_int e)"
      and "x * 2 powr (52 - of_int e) < of_int n + 1 / 2"
  shows "binary64 x = of_int n * 2 powr (of_int e - 52)"
  unfolding binary64_exponent [OF assms(1,2,3)] round_half_even_nearest [OF assms(4,5)]
  by (rule refl)

lemma binary64_hundredth: "binary64 0.01 = 5764607523034235 / 2 ^ 59"
  using binary64_nearest [of "0.01" "-7" 5764607523034235] by (simp add: powr_neg_numeral)

lemma binary64_fifth: "binary64 0.2 = 3602879701896397 / 2 ^ 54"
  using binary64_nearest [of "0.2" "-3" 7205759403792794] by (simp add: powr_neg_numeral)

lemma binary64_sum_at_0: "binary64 (0 + 5764607523034235 / 2 ^ 59) = 5764607523034235 / 2 ^ 59"
  using binary64_nearest [of "0 + 5764607523034235 / 2 ^ 59" "-7" 5764607523034235]
  by (simp add: powr_neg_numeral)

lemma binary64_sum_at_tiny:
  "binary64 (1 / 2 ^ 70 + 5764607523034235 / 2 ^ 59) = 5764607523034235 / 2 ^ 59"
  using binary64_nearest [of "1 / 2 ^ 70 + 5764607523034235 / 2 ^ 59" "-7" 5764607523034235]
  by (simp add: powr_neg_numeral)

lemma binary64_sum_at_1: "binary64 (1 + 5764607523034235 / 2 ^ 59) = 4548635623644201 / 2 ^ 52"
  using binary64_nearest [of "1 + 5764607523034235 / 2 ^ 59" 0 4548635623644201]
  by (simp add: powr_neg_numeral)

lemma binary64_quotient_at_0:
  "binary64 (3602879701896397 / 2 ^ 54 / (5764607523034235 / 2 ^ 59)) = 20"
  using binary64_nearest
    [of "3602879701896397 / 2 ^ 54 / (5764607523034235 / 2 ^ 59)" 4 5629499534213120]
  by (simp add: powr_neg_numeral)

lemma binary64_quotient_at_1:
  "binary64 (3602879701896397 / 2 ^ 54 / (4548635623644201 / 2 ^ 52)) =
     3567207625639997 / 2 ^ 54"
  using binary64_nearest
    [of "3602879701896397 / 2 ^ 54 / (4548635623644201 / 2 ^ 52)" "-3" 7134415251279994]
  by (simp add: powr_neg_numeral)

lemma binary64_tiny: "binary64 (1 / 2 ^ 70) = 1 / 2 ^ 70"
  using binary64_nearest [of "1 / 2 ^ 70" "-70" "2 ^ 52"]
  by (simp add: powr_neg_numeral)

lemma conv_spot_blend_binary64_value:
  assumes "0 \<le> b"
  shows "binary64 (b + binary64 0.01) \<noteq> 0 \<and>
         conv_spot_blend_binary64 (PyFloat b) =
           Inr (PyFloat (binary64 (binary64 0.2 / binary64 (b + binary64 0.01))))"
proof -
  have "0 < b + binary64 0.01"
    using assms binary64_positive [of "0.01"] by simp
  then have "0 < binary64 (b + binary64 0.01)" by (rule binary64_positive)
  then show ?thesis
    by (simp add: conv_spot_blend_binary64_def spot_blend_lambda_def Let_def)
qed

lemma binary64_quotient_antimono:
  assumes "0 \<le> a" and "a \<le> b"
  shows "binary64 (binary64 0.2 / binary64 (b + binary64 0.01)) \<le>
         binary64 (binary64 0.2 / binary64 (a + binary64 0.01))"
proof -
  have hundredth: "0 < binary64 0.01" and fifth: "0 < binary64 0.2"
    by (simp_all add: binary64_positive)
  have sum_a: "0 < a + binary64 0.01" using assms(1) hundredth by simp
  have "a + binary64 0.01 \<le> b + binary64 0.01" using assms(2) by simp
  then have sums: "binary64 (a + binary64 0.01) \<le> binary64 (b + binary64 0.01)"
    by (rule binary64_mono [OF sum_a])
  have den_a: "0 < binary64 (a + binary64 0.01)" using sum_a by (rule binary64_positive)
  then have den_b: "0 < binary64 (b + binary64 0.01)" using sums by linarith
  have quot: "binary64 0.2 / binary64 (b + binary64 0.01) \<le>
      binary64 0.2 / binary64 (a + binary64 0.01)"
    using fifth den_a sums by (simp add: frac_le)
  have "0 < binary64 0.2 / binary64 (b + binary64 0.01)"
    using fifth den_b by simp
  then show ?thesis using quot by (rule binary64_mono)
qed

lemma spot_blend_binary64_normal_range:
  assumes "0 \<le> b" and "b \<le> 1"
  shows "1 / 2 ^ 7 \<le> binary64 (b + binary64 0.01) \<and> binary64 (b + binary64 0.01) \<le> 2 \<and>
         1 / 2 ^ 3 \<le> binary64 (binary64 0.2 / binary64 (b + binary64 0.01)) \<and>
         binary64 (binary64 0.2 / binary64 (b + binary64 0.01)) \<le> 20"
proof -
  have hundredth: "0 < binary64 0.01" by (simp add: binary64_positive)
  have "0 < 0 + binary64 0.01" using hundredth by simp
  moreover have "0 + binary64 0.01 \<le> b + binary64 0.01" using assms by simp
  ultimately have "binary64 (0 + binary64 0.01) \<le> binary64 (b + binary64 0.01)"
    by (rule binary64_mono)
  then have low: "5764607523034235 / 2 ^ 59 \<le> binary64 (b + binary64 0.01)"
    by (simp only: binary64_hundredth binary64_sum_at_0)
  have "0 < b + binary64 0.01" using assms hundredth by simp
  moreover have "b + binary64 0.01 \<le> 1 + binary64 0.01" using assms by simp
  ultimately have "binary64 (b + binary64 0.01) \<le> binary64 (1 + binary64 0.01)"
    by (rule binary64_mono)
  then have high: "binary64 (b + binary64 0.01) \<le> 4548635623644201 / 2 ^ 52"
    by (simp only: binary64_hundredth binary64_sum_at_1)
  have "binary64 (binary64 0.2 / binary64 (b + binary64 0.01)) \<le>
      binary64 (binary64 0.2 / binary64 (0 + binary64 0.01))"
    using assms by (intro binary64_quotient_antimono) simp_all
  then have top: "binary64 (binary64 0.2 / binary64 (b + binary64 0.01)) \<le> 20"
    by (simp only: binary64_hundredth binary64_fifth binary64_sum_at_0 binary64_quotient_at_0)
  have "binary64 (binary64 0.2 / binary64 (1 + binary64 0.01)) \<le>
      binary64 (binary64 0.2 / binary64 (b + binary64 0.01))"
    using assms by (intro binary64_quotient_antimono) simp_all
  then have bottom: "3567207625639997 / 2 ^ 54 \<le>
      binary64 (binary64 0.2 / binary64 (b + binary64 0.01))"
    by (simp only: binary64_hundredth binary64_fifth binary64_sum_at_1 binary64_quotient_at_1)
  have "(1 / 2 ^ 7 :: real) \<le> 5764607523034235 / 2 ^ 59"
    and "(4548635623644201 / 2 ^ 52 :: real) \<le> 2"
    and "(1 / 2 ^ 3 :: real) \<le> 3567207625639997 / 2 ^ 54"
    by simp_all
  then show ?thesis using low high top bottom by linarith
qed

lemma spot_blend_unrounded_strict:
  assumes "0 \<le> a" and "a < b"
      and "spot_blend_lambda (\<lambda>r. r) (PyFloat a) = Inr (PyFloat fa)"
      and "spot_blend_lambda (\<lambda>r. r) (PyFloat b) = Inr (PyFloat fb)"
  shows "fb < fa"
proof -
  have "0 < a + 0.01" and "0 < b + 0.01" and "a + 0.01 < b + 0.01" using assms(1,2) by simp_all
  then have "0.2 / (b + 0.01) < 0.2 / (a + 0.01)" by (simp add: frac_less2)
  moreover have "fa = 0.2 / (a + 0.01)"
    using assms(1,3) by (simp add: spot_blend_lambda_def Let_def split: if_splits)
  moreover have "fb = 0.2 / (b + 0.01)"
    using assms(1,2,4) by (simp add: spot_blend_lambda_def Let_def split: if_splits)
  ultimately show ?thesis by simp
qed

text \<open>The definitions that running the resolver and the placeholder converter on the
  example project unfolds.\<close>

lemmas resolver_eval = find_scene_def find_scene_in_subtree_def example_env_def
  example_settings_def os_path_join_def Let_def

lemmas placeholder_eval = export_empty_node_def export_spatial_node_def use_external_scene_def
  get_external_resource_def add_external_resource_def ext_resource_token_def digit_char_def
  NodeTemplate_def InstanceTemplate_def set_item_def add_node_def logging_warning_def
  example_empty_def empty_state_def re_match_scene_def scene_suffix_at_def

section \<open>The claims\<close>

text \<open>Claim C2, as the code has it. The spot table's entry for \<^verbatim>\<open>spot_blend\<close> is the
  lambda \<^verbatim>\<open>0.2/(x + 0.01)\<close>. Without rounding it is strictly decreasing on the interval
  from 0 to 1. In double precision, where the code computes it, the denominator is
  never zero on that interval, so the conversion returns a value there, and a larger
  blend never gives a larger result; at 0 it yields exactly 20, and at 1 it yields the
  double next to \<open>0.2 / 1.01\<close>.\<close>

theorem spot_blend_conversion_binary64:
  "map_of spot_attr_conv ''spot_blend'' = Some (''spot_angle_attenuation'', conv_spot_blend) \<and>
   (\<forall>x. conv_spot_blend x = spot_blend_lambda (\<lambda>r. r) x) \<and>
   (\<forall>a b fa fb.
      0 \<le> a \<and> a < b \<and> b \<le> 1 \<and>
      spot_blend_lambda (\<lambda>r. r) (PyFloat a) = Inr (PyFloat fa) \<and>
      spot_blend_lambda (\<lambda>r. r) (PyFloat b) = Inr (PyFloat fb) \<longrightarrow> fb < fa) \<and>
   (\<forall>b. 0 \<le> b \<and> b \<le> 1 \<longrightarrow>
      binary64 (b + binary64 0.01) \<noteq> 0 \<and>
      conv_spot_blend_binary64 (PyFloat b) =
        Inr (PyFloat (binary64 (binary64 0.2 / binary64 (b + binary64 0.01))))) \<and>
   (\<forall>a b fa fb.
      0 \<le> a \<and> a \<le> b \<and> b \<le> 1 \<and>
      conv_spot_blend_binary64 (PyFloat a) = Inr (PyFloat fa) \<and>
      conv_spot_blend_binary64 (PyFloat b) = Inr (PyFloat fb) \<longrightarrow> fb \<le> fa) \<and>
   conv_spot_blend_binary64 (PyFloat 0) = Inr (PyFloat 20) \<and>
   conv_spot_blend_binary64 (PyFloat 1) = Inr (PyFloat (3567207625639997 / 2 ^ 54)) \<and>
   \<bar>3567207625639997 / 2 ^ 54 - 0.2 / 1.01\<bar> < (1 / 2 ^ 55 :: real)"
proof -
  have entry: "map_of spot_attr_conv ''spot_blend'' =
      Some (''spot_angle_attenuation'', conv_spot_blend)"
    by (simp add: spot_attr_conv_def)
  have total: "binary64 (b + binary64 0.01) \<noteq> 0 \<and>
      conv_spot_blend_binary64 (PyFloat b) =
        Inr (PyFloat (binary64 (binary64 0.2 / binary64 (b + binary64 0.01))))"
    if "0 \<le> b" for b
    using that by (rule conv_spot_blend_binary64_value)
  have non_increasing: "fb \<le> fa"
    if range: "0 \<le> a" "a \<le> b"
      and at_a: "conv_spot_blend_binary64 (PyFloat a) = Inr (PyFloat fa)"
      and at_b: "conv_spot_blend_binary64 (PyFloat b) = Inr (PyFloat fb)"
    for a b fa fb
  proof -
    have "0 \<le> b" using range by simp
    from total [OF range(1)] at_a
    have fa: "fa = binary64 (binary64 0.2 / binary64 (a + binary64 0.01))" by simp
    from total [OF \<open>0 \<le> b\<close>] at_b
    have fb: "fb = binary64 (binary64 0.2 / binary64 (b + binary64 0.01))" by simp
    show ?thesis unfolding fa fb using range by (rule binary64_quotient_antimono)
  qed
  have at_0: "conv_spot_blend_binary64 (PyFloat 0) = Inr (PyFloat 20)"
    using total [of 0]
    by (simp only: binary64_hundredth binary64_fifth binary64_sum_at_0 binary64_quotient_at_0)
  have at_1: "conv_spot_blend_binary64 (PyFloat 1) = Inr (PyFloat (3567207625639997 / 2 ^ 54))"
    using total [of 1]
    by (simp only: binary64_hundredth binary64_fifth binary64_sum_at_1 binary64_quotient_at_1)
  have near: "\<bar>3567207625639997 / 2 ^ 54 - 0.2 / 1.01\<bar> < (1 / 2 ^ 55 :: real)"
    by simp
  show ?thesis
    using entry conv_spot_blend_unrounded spot_blend_unrounded_strict total non_increasing
      at_0 at_1 near
    by blast
qed

theorem spot_blend_conversion_binary64_witness:
  "(0::real) \<le> 0.25 \<and> (0.25::real) \<le> 0.5 \<and> (0.5::real) \<le> 1 \<and>
   (\<exists>fa fb.
      conv_spot_blend_binary64 (PyFloat 0.25) = Inr (PyFloat fa) \<and>
      conv_spot_blend_binary64 (PyFloat 0.5) = Inr (PyFloat fb) \<and> fb \<le> fa) \<and>
   conv_spot_blend_binary64 (PyFloat 0) = Inr (PyFloat 20) \<and>
   conv_spot_blend_binary64 (PyFloat 1) = Inr (PyFloat (3567207625639997 / 2 ^ 54))"
proof -
  note conv = spot_blend_conversion_binary64
  have range: "(0::real) \<le> 0.25 \<and> (0.25::real) \<le> 0.5 \<and> (0.5::real) \<le> 1" by simp
  from conv range obtain fa where
    fa: "conv_spot_blend_binary64 (PyFloat 0.25) = Inr (PyFloat fa)"
    by (metis order_trans)
  from conv range obtain fb where
    fb: "conv_spot_blend_binary64 (PyFloat 0.5) = Inr (PyFloat fb)"
    by (metis order_trans)
  from conv range fa fb have "fb \<le> fa" by blast
  then show ?thesis using conv range fa fb by blast
qed

text \<open>Claim C2 as the spec states it, strictly decreasing, fails in double precision:
  the blends 0 and \<open>1 / 2 ^ 70\<close> are different doubles of the interval, and both are
  converted to 20, because adding either to the double of 0.01 gives that double.\<close>

theorem spot_blend_conversion_counterexample:
  "(0::real) \<le> 0 \<and> (0::real) < 1 / 2 ^ 70 \<and> (1 / 2 ^ 70 :: real) \<le> 1 \<and>
   binary64 0 = 0 \<and> binary64 (1 / 2 ^ 70) = 1 / 2 ^ 70 \<and>
   conv_spot_blend_binary64 (PyFloat 0) = Inr (PyFloat 20) \<and>
   conv_spot_blend_binary64 (PyFloat (1 / 2 ^ 70)) = Inr (PyFloat 20)"
proof -
  have at_0: "conv_spot_blend_binary64 (PyFloat 0) = Inr (PyFloat 20)"
    using conv_spot_blend_binary64_value [of 0]
    by (simp only: binary64_hundredth binary64_fifth binary64_sum_at_0 binary64_quotient_at_0)
  have "(0::real) \<le> 1 / 2 ^ 70" by simp
  from conv_spot_blend_binary64_value [OF this]
  have at_tiny: "conv_spot_blend_binary64 (PyFloat (1 / 2 ^ 70)) = Inr (PyFloat 20)"
    by (simp only: binary64_hundredth binary64_fifth binary64_sum_at_tiny
        binary64_quotient_at_0)
  show ?thesis
    using at_0 at_tiny binary64_tiny by (simp add: binary64_def)
qed

text \<open>Claim C4. For every source camera, \<^verbatim>\<open>export_camera_node\<close> returns a Camera node
  whose \<^verbatim>\<open>projection\<close> attribute is 0 when the camera's type is \<^verbatim>\<open>PERSP\<close> and 1 for
  every other type.\<close>

theorem export_camera_node_projection:
  "\<exists>cam_node st'.
     export_camera_node env st settings node parent_gd_node = Inr (cam_node, st') \<and>
     get_type cam_node = Some ''Camera'' \<and>
     get_item cam_node ''projection'' =
       Some (PyInt (if camera_type (data node) = ''PERSP'' then 0 else 1))"
  by (simp add: export_camera_node_def camera_table_applies Let_def get_item_set_item
      get_type_set_item CameraNode_def get_type_NodeTemplate)

theorem export_camera_node_projection_witness:
  "(\<exists>cam_node st'.
      export_camera_node example_env empty_state example_settings (example_camera ''PERSP'') None
        = Inr (cam_node, st') \<and>
      get_type cam_node = Some ''Camera'' \<and>
      get_item cam_node ''projection'' = Some (PyInt 0)) \<and>
   (\<exists>cam_node st'.
      export_camera_node example_env empty_state example_settings (example_camera ''ORTHO'') None
        = Inr (cam_node, st') \<and>
      get_type cam_node = Some ''Camera'' \<and>
      get_item cam_node ''projection'' = Some (PyInt 1))"
  using export_camera_node_projection
          [of example_env empty_state example_settings "example_camera ''PERSP''" None]
        export_camera_node_projection
          [of example_env empty_state example_settings "example_camera ''ORTHO''" None]
  by (simp add: example_camera_def)

text \<open>Claim C5. When \<^verbatim>\<open>EMPTY\<close> is not among the configured object types,
  \<^verbatim>\<open>export_empty_node\<close> returns the parent it was given and leaves the whole export
  state as it was: no node is added to the document, nothing is registered, nothing
  is logged. The entity and the parent are values the function only reads.\<close>

theorem export_empty_node_filtered:
  assumes "''EMPTY'' \<notin> object_types settings"
  shows "export_empty_node env st settings node parent_gd_node = (parent_gd_node, st)"
  using assms by (simp add: export_empty_node_def)

theorem export_empty_node_filtered_witness:
  "''EMPTY'' \<notin> object_types (example_settings\<lparr>object_types := {''CAMERA'', ''LIGHT''}\<rparr>) \<and>
   export_empty_node example_env empty_state
       (example_settings\<lparr>object_types := {''CAMERA'', ''LIGHT''}\<rparr>)
       (example_empty ''house.tscn'') (Some (NodeTemplate ''Root'' ''Spatial'' None))
     = (Some (NodeTemplate ''Root'' ''Spatial'' None), empty_state)"
proof -
  have off: "''EMPTY'' \<notin> object_types (example_settings\<lparr>object_types := {''CAMERA'', ''LIGHT''}\<rparr>)"
    by simp
  show ?thesis
    using off export_empty_node_filtered [OF off] by simp
qed



text \<open>Claim C9. For a source light whose kind is not \<^verbatim>\<open>POINT\<close>, \<^verbatim>\<open>SPOT\<close> or \<^verbatim>\<open>SUN\<close>,
  \<^verbatim>\<open>export_light_node\<close> raises nothing and returns the absent result. It logs the
  unknown-kind warning and still calls the animation exporter once, with the absent
  target, the light's data block and the category \<^verbatim>\<open>light\<close>. The document is left as it
  was: no node is created, no attribute is converted, nothing is registered.\<close>

theorem export_light_node_unknown_kind:
  assumes "light_type (data node) \<notin> {''POINT'', ''SPOT'', ''SUN''}"
  shows "export_light_node env st settings node parent_gd_node =
     Inr (None,
          st\<lparr>warnings := warnings st @ [''Unknown light type. Use Point, Spot or Sun: '' @ name node],
             animation_exports := animation_exports st @ [(None, LightData (data node), ''light'')]\<rparr>)"
  using assms
  by (simp add: export_light_node_def bl_light_to_gd_light_def logging_warning_def
      export_animation_data_def Let_def)

theorem export_light_node_unknown_kind_witness:
  "light_type (data (example_light ''AREA'' 10)) \<notin> {''POINT'', ''SPOT'', ''SUN''} \<and>
   export_light_node example_env empty_state example_settings (example_light ''AREA'' 10) None =
     Inr (None,
          \<lparr>document = \<lparr>nodes = [], external_resources = []\<rparr>,
           warnings = [''Unknown light type. Use Point, Spot or Sun: Lamp''],
           animation_exports = [(None, LightData (data (example_light ''AREA'' 10)), ''light'')]\<rparr>)"
proof -
  have unknown: "light_type (data (example_light ''AREA'' 10)) \<notin> {''POINT'', ''SPOT'', ''SUN''}"
    by (simp add: example_light_def)
  show ?thesis
    using unknown
      export_light_node_unknown_kind [OF unknown, of example_env empty_state example_settings None]
    by (simp add: empty_state_def example_light_def)
qed

text \<open>Claim C1. When the External Scene Resolver finds a scene for a name, two calls of
  \<^verbatim>\<open>use_external_scene\<close> with that name, the second on the state the first left, return the
  same token \<^verbatim>\<open>ExtResource(<id>)\<close>, where the identifier is the one the document holds
  for the name. The first call registers the resource only when the name was not
  registered before; the second call leaves the document as it is. After both calls
  the name has one registration if it had none, and as many as before otherwise.\<close>

theorem use_external_scene_twice:
  assumes found: "fst (find_scene env settings scene_name) = Some external_scene"
      and first: "use_external_scene env st settings scene_name = (token1, st1)"
      and second: "use_external_scene env st1 settings scene_name = (token2, st2)"
  shows "\<exists>resource_id.
           token1 = Some (ext_resource_token resource_id) \<and>
           token2 = token1 \<and>
           get_external_resource (document st1) scene_name = Some resource_id \<and>
           document st2 = document st1 \<and>
           external_resources (document st1) =
             (case get_external_resource (document st) scene_name of
                Some registered \<Rightarrow> external_resources (document st)
              | None \<Rightarrow>
                  external_resources (document st) @
                    [(scene_name, ExternalResource (fst external_scene) (snd external_scene))]) \<and>
           registration_count (document st2) scene_name =
             max 1 (registration_count (document st) scene_name)"
proof (cases "get_external_resource (document st) scene_name")
  case None
  let ?rid = "Suc (length (external_resources (document st)))"
  from first use_external_scene_fresh [OF found None]
  have t1: "token1 = Some (ext_resource_token ?rid)"
    and st1: "st1 = st\<lparr>warnings := warnings st @ snd (find_scene env settings scene_name),
               document := (document st)\<lparr>external_resources :=
                  external_resources (document st) @
                    [(scene_name, ExternalResource (fst external_scene) (snd external_scene))]\<rparr>\<rparr>"
    by simp_all
  have reg1: "get_external_resource (document st1) scene_name = Some ?rid"
    using None by (simp add: st1 get_external_resource_def first_index_append)
  from second use_external_scene_registered [OF found reg1]
  have t2: "token2 = Some (ext_resource_token ?rid)"
    and st2: "st2 = st1\<lparr>warnings := warnings st1 @ snd (find_scene env settings scene_name)\<rparr>"
    by simp_all
  have count0: "filter (\<lambda>e. fst e = scene_name) (external_resources (document st)) = []"
    using None by (simp add: get_external_resource_def first_index_None_iff)
  have count: "registration_count (document st2) scene_name =
                 max 1 (registration_count (document st) scene_name)"
    using count0 by (simp add: st2 st1 registration_count_def)
  show ?thesis
    using t1 t2 reg1 count None by (simp add: st2 st1)
next
  case (Some rid)
  from first use_external_scene_registered [OF found Some]
  have t1: "token1 = Some (ext_resource_token rid)"
    and st1: "st1 = st\<lparr>warnings := warnings st @ snd (find_scene env settings scene_name)\<rparr>"
    by simp_all
  have reg1: "get_external_resource (document st1) scene_name = Some rid"
    using Some by (simp add: st1)
  from second use_external_scene_registered [OF found reg1]
  have t2: "token2 = Some (ext_resource_token rid)"
    and st2: "st2 = st1\<lparr>warnings := warnings st1 @ snd (find_scene env settings scene_name)\<rparr>"
    by simp_all
  have "filter (\<lambda>e. fst e = scene_name) (external_resources (document st)) \<noteq> []"
    using Some by (metis first_index_None_iff get_external_resource_def option.distinct(1))
  then have "1 \<le> registration_count (document st) scene_name"
    by (simp add: registration_count_def Suc_le_eq)
  then have count: "registration_count (document st2) scene_name =
                 max 1 (registration_count (document st) scene_name)"
    by (simp add: st2 st1 max_def)
  show ?thesis
    using t1 t2 reg1 count Some by (simp add: st2 st1)
qed

theorem use_external_scene_twice_witness:
  "fst (find_scene example_env example_settings ''house.tscn'') =
     Some (''/proj/house.tscn'', ''PackedScene'') \<and>
   use_external_scene example_env empty_state example_settings ''house.tscn'' =
     (Some ''ExtResource(1)'',
      \<lparr>document = \<lparr>nodes = [], external_resources =
                    [(''house.tscn'', ExternalResource ''/proj/house.tscn'' ''PackedScene'')]\<rparr>,
       warnings = [''Multiple scenes found for house.tscn''], animation_exports = []\<rparr>) \<and>
   use_external_scene example_env
     \<lparr>document = \<lparr>nodes = [], external_resources =
                    [(''house.tscn'', ExternalResource ''/proj/house.tscn'' ''PackedScene'')]\<rparr>,
       warnings = [''Multiple scenes found for house.tscn''], animation_exports = []\<rparr>
     example_settings ''house.tscn'' =
     (Some ''ExtResource(1)'',
      \<lparr>document = \<lparr>nodes = [], external_resources =
                    [(''house.tscn'', ExternalResource ''/proj/house.tscn'' ''PackedScene'')]\<rparr>,
       warnings = [''Multiple scenes found for house.tscn'',
                   ''Multiple scenes found for house.tscn''],
       animation_exports = []\<rparr>) \<and>
   registration_count
     \<lparr>nodes = [], external_resources =
        [(''house.tscn'', ExternalResource ''/proj/house.tscn'' ''PackedScene'')]\<rparr>
     ''house.tscn'' = 1"
proof -
  let ?st1 = "\<lparr>document = \<lparr>nodes = [], external_resources =
                    [(''house.tscn'', ExternalResource ''/proj/house.tscn'' ''PackedScene'')]\<rparr>,
       warnings = [''Multiple scenes found for house.tscn''], animation_exports = []\<rparr>"
  let ?st2 = "\<lparr>document = \<lparr>nodes = [], external_resources =
                    [(''house.tscn'', ExternalResource ''/proj/house.tscn'' ''PackedScene'')]\<rparr>,
       warnings = [''Multiple scenes found for house.tscn'',
                   ''Multiple scenes found for house.tscn''],
       animation_exports = []\<rparr>"
  have found: "fst (find_scene example_env example_settings ''house.tscn'') =
     Some (''/proj/house.tscn'', ''PackedScene'')"
    by (simp add: resolver_eval)
  have first: "use_external_scene example_env empty_state example_settings ''house.tscn'' =
     (Some ''ExtResource(1)'', ?st1)"
    by (simp add: use_external_scene_def resolver_eval empty_state_def
        get_external_resource_def add_external_resource_def ext_resource_token_def digit_char_def)
  have second: "use_external_scene example_env ?st1 example_settings ''house.tscn'' =
     (Some ''ExtResource(1)'', ?st2)"
    by (simp add: use_external_scene_def resolver_eval
        get_external_resource_def ext_resource_token_def digit_char_def)
  from use_external_scene_twice [OF found first second]
  have "registration_count (document ?st2) ''house.tscn'' =
          max 1 (registration_count (document empty_state) ''house.tscn'')"
    by blast
  then have "registration_count (document ?st2) ''house.tscn'' = 1"
    by (simp add: registration_count_def empty_state_def)
  then show ?thesis using found first second by simp
qed

text \<open>Claim C3. In the table of an Omni light and in the table of a Spot light exactly
  one entry writes \<^verbatim>\<open>light_energy\<close>; it reads \<^verbatim>\<open>energy\<close> and turns \<open>e\<close> into
  \<open>\<bar>e / 100\<bar>\<close>. In the table of a Directional light the one such entry turns \<open>e\<close> into
  \<open>\<bar>e\<bar>\<close>. The exported node of a \<^verbatim>\<open>POINT\<close>, \<^verbatim>\<open>SPOT\<close> or \<^verbatim>\<open>SUN\<close> light carries the
  value its kind's rule gives (for a spot light, provided its blend conversion does
  not divide by zero).\<close>

theorem light_energy_conversion_per_kind:
  "energy_entries (attribute_conversion env (LightNode nm ''OmniLight'' p)) e =
     [(''energy'', Inr (PyFloat \<bar>e / 100\<bar>))] \<and>
   energy_entries (attribute_conversion env (LightNode nm ''SpotLight'' p)) e =
     [(''energy'', Inr (PyFloat \<bar>e / 100\<bar>))] \<and>
   energy_entries (attribute_conversion env (LightNode nm ''DirectionalLight'' p)) e =
     [(''energy'', Inr (PyFloat \<bar>e\<bar>))] \<and>
   (light_type (data node) = ''POINT'' \<longrightarrow>
      (\<exists>ln st'. export_light_node env st settings node parent_gd_node = Inr (Some ln, st') \<and>
         get_type ln = Some ''OmniLight'' \<and>
         get_item ln ''light_energy'' = Some (PyFloat \<bar>energy (data node) / 100\<bar>))) \<and>
   (light_type (data node) = ''SPOT'' \<and> spot_blend (data node) + 0.01 \<noteq> 0 \<longrightarrow>
      (\<exists>ln st'. export_light_node env st settings node parent_gd_node = Inr (Some ln, st') \<and>
         get_type ln = Some ''SpotLight'' \<and>
         get_item ln ''light_energy'' = Some (PyFloat \<bar>energy (data node) / 100\<bar>))) \<and>
   (light_type (data node) = ''SUN'' \<longrightarrow>
      (\<exists>ln st'. export_light_node env st settings node parent_gd_node = Inr (Some ln, st') \<and>
         get_type ln = Some ''DirectionalLight'' \<and>
         get_item ln ''light_energy'' = Some (PyFloat \<bar>energy (data node)\<bar>)))"
proof -
  have tables:
    "energy_entries (attribute_conversion env (LightNode nm ''OmniLight'' p)) e =
       [(''energy'', Inr (PyFloat \<bar>e / 100\<bar>))]"
    "energy_entries (attribute_conversion env (LightNode nm ''SpotLight'' p)) e =
       [(''energy'', Inr (PyFloat \<bar>e / 100\<bar>))]"
    "energy_entries (attribute_conversion env (LightNode nm ''DirectionalLight'' p)) e =
       [(''energy'', Inr (PyFloat \<bar>e\<bar>))]"
    by (simp_all add: attribute_conversion_def LightNode_def get_type_NodeTemplate
        energy_entries_light_attr_conv)
      (simp_all add: energy_entries_def omni_attr_conv_def spot_attr_conv_def
        directional_attr_conv_def conv_abs_div_100_def)
  show ?thesis
    using tables export_light_node_point [of node env st settings parent_gd_node]
      export_light_node_spot [of node env st settings parent_gd_node]
      export_light_node_sun [of node env st settings parent_gd_node]
    by blast
qed

theorem light_energy_conversion_per_kind_witness:
  "energy_entries (attribute_conversion example_env (LightNode ''Lamp'' ''OmniLight'' None)) (-250)
     = [(''energy'', Inr (PyFloat 2.5))] \<and>
   energy_entries (attribute_conversion example_env (LightNode ''Lamp'' ''DirectionalLight'' None))
       (-3.5)
     = [(''energy'', Inr (PyFloat 3.5))] \<and>
   light_type (data (example_light ''POINT'' (-250))) = ''POINT'' \<and>
   (\<exists>ln st'. export_light_node example_env empty_state example_settings
                (example_light ''POINT'' (-250)) None = Inr (Some ln, st') \<and>
      get_type ln = Some ''OmniLight'' \<and> get_item ln ''light_energy'' = Some (PyFloat 2.5)) \<and>
   light_type (data (example_light ''SPOT'' (-250))) = ''SPOT'' \<and>
   spot_blend (data (example_light ''SPOT'' (-250))) + 0.01 \<noteq> 0 \<and>
   (\<exists>ln st'. export_light_node example_env empty_state example_settings
                (example_light ''SPOT'' (-250)) None = Inr (Some ln, st') \<and>
      get_type ln = Some ''SpotLight'' \<and> get_item ln ''light_energy'' = Some (PyFloat 2.5)) \<and>
   light_type (data (example_light ''SUN'' (-3.5))) = ''SUN'' \<and>
   (\<exists>ln st'. export_light_node example_env empty_state example_settings
                (example_light ''SUN'' (-3.5)) None = Inr (Some ln, st') \<and>
      get_type ln = Some ''DirectionalLight'' \<and>
      get_item ln ''light_energy'' = Some (PyFloat 3.5))"
  using light_energy_conversion_per_kind
          [of example_env "''Lamp''" None "-250" "example_light ''POINT'' (-250)"
              empty_state example_settings None]
        light_energy_conversion_per_kind
          [of example_env "''Lamp''" None "-3.5" "example_light ''SPOT'' (-250)"
              empty_state example_settings None]
        light_energy_conversion_per_kind
          [of example_env "''Lamp''" None "-3.5" "example_light ''SUN'' (-3.5)"
              empty_state example_settings None]
  by (simp add: example_light_def)

text \<open>Claim C6. The edge case of the second step of the placeholder converter, reached
  once placeholder export is enabled: an entity whose name matches the scene file
  pattern but whose scene the resolver does not find falls through to the third
  step. \<^verbatim>\<open>export_empty_node\<close> raises nothing, logs that the scene could not be found,
  adds a generic node of kind \<^verbatim>\<open>Spatial\<close> to the document and returns it. No instance
  node is made and nothing is registered.\<close>

theorem export_empty_node_fallback:
  assumes "''EMPTY'' \<in> object_types settings"
      and "re_match_scene (name node) = Some scene_name"
      and "fst (find_scene env settings scene_name) = None"
  shows "export_empty_node env st settings node parent_gd_node =
           (Some (spatial_node node parent_gd_node),
            st\<lparr>warnings := warnings st @ [unable_to_find scene_name],
               document := (document st)
                 \<lparr>nodes := nodes (document st) @ [spatial_node node parent_gd_node]\<rparr>\<rparr>) \<and>
         get_type (spatial_node node parent_gd_node) = Some ''Spatial''"
  unfolding export_empty_node_not_found [OF assms]
  by (simp add: add_node_def logging_warning_def get_type_def)

theorem export_empty_node_fallback_witness:
  "''EMPTY'' \<in> object_types example_settings \<and>
   re_match_scene (name (example_empty ''tree.escn'')) = Some ''tree.escn'' \<and>
   fst (find_scene example_env example_settings ''tree.escn'') = None \<and>
   export_empty_node example_env empty_state example_settings (example_empty ''tree.escn'') None =
     (Some (GdNode ''tree.escn'' (NodeType ''Spatial'') None [(''transform'', PyMatrix [])]),
      \<lparr>document =
         \<lparr>nodes = [GdNode ''tree.escn'' (NodeType ''Spatial'') None [(''transform'', PyMatrix [])]],
          external_resources = []\<rparr>,
       warnings = [unable_to_find ''tree.escn''], animation_exports = []\<rparr>)"
proof -
  have enabled: "''EMPTY'' \<in> object_types example_settings"
    by (simp add: example_settings_def)
  have matches: "re_match_scene (name (example_empty ''tree.escn'')) = Some ''tree.escn''"
    by (simp add: example_empty_def re_match_scene_def scene_suffix_at_def)
  have missing: "fst (find_scene example_env example_settings ''tree.escn'') = None"
    by (simp add: resolver_eval)
  show ?thesis
    using enabled matches missing
      export_empty_node_fallback [OF enabled matches missing, of empty_state None]
    by (simp add: example_empty_def empty_state_def)
qed

text \<open>Claim C7, as the code has it. With placeholder export enabled,
  \<^verbatim>\<open>export_empty_node\<close> looks up an external scene exactly for the entities whose name
  holds \<^verbatim>\<open>.tscn\<close> or \<^verbatim>\<open>.escn\<close> before its first line break, whether or not anything
  follows the suffix. The scene looked up is the name cut after the last such
  suffix; the resolver's answer decides between an instance node and, with a warning, the
  spatial node. A name without such a suffix is never looked up and always becomes
  the spatial node, with nothing logged and nothing registered. A one-line name that
  ends in the suffix is looked up whole.\<close>

theorem export_empty_node_lookup:
  assumes "''EMPTY'' \<in> object_types settings"
  shows "(\<not> contains_scene_suffix (name node) \<longrightarrow>
            export_empty_node env st settings node parent_gd_node =
              (Some (spatial_node node parent_gd_node),
               add_node st (spatial_node node parent_gd_node))) \<and>
         (contains_scene_suffix (name node) \<longrightarrow>
            (\<exists>before suffix after scene_name.
               name node = before @ suffix @ after \<and> scene_name = before @ suffix \<and>
               (suffix = ''.tscn'' \<or> suffix = ''.escn'') \<and> CHR 0x0A \<notin> set before \<and>
               (\<forall>before' suffix' after'.
                  name node = before' @ suffix' @ after' \<and>
                  (suffix' = ''.tscn'' \<or> suffix' = ''.escn'') \<and> CHR 0x0A \<notin> set before' \<longrightarrow>
                  length (before' @ suffix') \<le> length scene_name) \<and>
               re_match_scene (name node) = Some scene_name \<and>
               (case fst (find_scene env settings scene_name) of
                  None \<Rightarrow>
                    export_empty_node env st settings node parent_gd_node =
                      (Some (spatial_node node parent_gd_node),
                       add_node (logging_warning st (unable_to_find scene_name))
                         (spatial_node node parent_gd_node))
                | Some found \<Rightarrow>
                    (\<exists>resource_id.
                       fst (export_empty_node env st settings node parent_gd_node) =
                         Some (instance_node node (ext_resource_token resource_id)
                                 parent_gd_node))))) \<and>
         (spec_ends_in_scene_suffix (name node) \<and> CHR 0x0A \<notin> set (name node) \<longrightarrow>
            re_match_scene (name node) = Some (name node))"
proof (intro conjI impI)
  assume "\<not> contains_scene_suffix (name node)"
  then have "re_match_scene (name node) = None" using re_match_scene_iff by blast
  then show "export_empty_node env st settings node parent_gd_node =
      (Some (spatial_node node parent_gd_node), add_node st (spatial_node node parent_gd_node))"
    by (rule export_empty_node_no_match [OF assms])
next
  assume "contains_scene_suffix (name node)"
  then obtain scene_name where m: "re_match_scene (name node) = Some scene_name"
    using re_match_scene_iff by blast
  from re_match_scene_Some [OF m] obtain before suffix after where
    parts: "name node = before @ suffix @ after" "scene_name = before @ suffix"
      "suffix = ''.tscn'' \<or> suffix = ''.escn''" "CHR 0x0A \<notin> set before"
    by blast
  have last: "\<forall>before' suffix' after'.
      name node = before' @ suffix' @ after' \<and>
      (suffix' = ''.tscn'' \<or> suffix' = ''.escn'') \<and> CHR 0x0A \<notin> set before' \<longrightarrow>
      length (before' @ suffix') \<le> length scene_name"
    using re_match_scene_last [OF m] by blast
  have outcome: "case fst (find_scene env settings scene_name) of
       None \<Rightarrow>
         export_empty_node env st settings node parent_gd_node =
           (Some (spatial_node node parent_gd_node),
            add_node (logging_warning st (unable_to_find scene_name))
              (spatial_node node parent_gd_node))
     | Some found \<Rightarrow>
         (\<exists>resource_id.
            fst (export_empty_node env st settings node parent_gd_node) =
              Some (instance_node node (ext_resource_token resource_id) parent_gd_node))"
  proof (cases "fst (find_scene env settings scene_name)")
    case None
    then show ?thesis using export_empty_node_not_found [OF assms m None] by simp
  next
    case (Some found)
    from use_external_scene_found [OF Some] obtain rid st1 where
      "use_external_scene env st settings scene_name = (Some (ext_resource_token rid), st1)"
      by blast
    from export_empty_node_instance [OF assms m this] show ?thesis using Some by auto
  qed
  show "\<exists>before suffix after scene_name.
       name node = before @ suffix @ after \<and> scene_name = before @ suffix \<and>
       (suffix = ''.tscn'' \<or> suffix = ''.escn'') \<and> CHR 0x0A \<notin> set before \<and>
       (\<forall>before' suffix' after'.
          name node = before' @ suffix' @ after' \<and>
          (suffix' = ''.tscn'' \<or> suffix' = ''.escn'') \<and> CHR 0x0A \<notin> set before' \<longrightarrow>
          length (before' @ suffix') \<le> length scene_name) \<and>
       re_match_scene (name node) = Some scene_name \<and>
       (case fst (find_scene env settings scene_name) of
          None \<Rightarrow>
            export_empty_node env st settings node parent_gd_node =
              (Some (spatial_node node parent_gd_node),
               add_node (logging_warning st (unable_to_find scene_name))
                 (spatial_node node parent_gd_node))
        | Some found \<Rightarrow>
            (\<exists>resource_id.
               fst (export_empty_node env st settings node parent_gd_node) =
                 Some (instance_node node (ext_resource_token resource_id) parent_gd_node)))"
    by (insert parts m outcome last, rule exI [of _ before], rule exI [of _ suffix],
        rule exI [of _ after], rule exI [of _ scene_name], intro conjI)
next
  assume "spec_ends_in_scene_suffix (name node) \<and> CHR 0x0A \<notin> set (name node)"
  then show "re_match_scene (name node) = Some (name node)"
    using re_match_scene_whole_name by blast
qed

theorem export_empty_node_lookup_witness:
  "''EMPTY'' \<in> object_types example_settings \<and>
   re_match_scene ''crate'' = None \<and>
   export_empty_node example_env empty_state example_settings (example_empty ''crate'') None =
     (Some (GdNode ''crate'' (NodeType ''Spatial'') None [(''transform'', PyMatrix [])]),
      \<lparr>document =
         \<lparr>nodes = [GdNode ''crate'' (NodeType ''Spatial'') None [(''transform'', PyMatrix [])]],
          external_resources = []\<rparr>,
       warnings = [], animation_exports = []\<rparr>) \<and>
   spec_ends_in_scene_suffix ''barn.escn'' \<and>
   re_match_scene ''barn.escn'' = Some ''barn.escn'' \<and>
   contains_scene_suffix ''barn.escn.002'' \<and>
   re_match_scene ''barn.escn.002'' = Some ''barn.escn'' \<and>
   (\<exists>resource_id.
      fst (export_empty_node example_env empty_state example_settings
             (example_empty ''barn.escn.002'') None) =
        Some (GdNode ''barn.escn.002'' (InstanceOf (ext_resource_token resource_id)) None
                [(''transform'', PyMatrix [])]))"
proof -
  have enabled: "''EMPTY'' \<in> object_types example_settings"
    by (simp add: example_settings_def)
  have plain: "re_match_scene ''crate'' = None"
    by (simp add: re_match_scene_def scene_suffix_at_def)
  then have no_suffix: "\<not> contains_scene_suffix (name (example_empty ''crate''))"
    using re_match_scene_iff [of "''crate''"] by (simp add: example_empty_def)
  have ends: "spec_ends_in_scene_suffix (name (example_empty ''barn.escn'')) \<and>
      CHR 0x0A \<notin> set (name (example_empty ''barn.escn''))"
    by (simp add: spec_ends_in_scene_suffix_def example_empty_def)
  note at_crate =
    export_empty_node_lookup [OF enabled, of "example_empty ''crate''" example_env empty_state None]
  note at_barn =
    export_empty_node_lookup [OF enabled, of "example_empty ''barn.escn''" example_env
      empty_state None]
  have spatial: "export_empty_node example_env empty_state example_settings
        (example_empty ''crate'') None =
      (Some (spatial_node (example_empty ''crate'') None),
       add_node empty_state (spatial_node (example_empty ''crate'') None))"
    using at_crate no_suffix by blast
  have whole: "re_match_scene (name (example_empty ''barn.escn'')) =
      Some (name (example_empty ''barn.escn''))"
    using at_barn ends by blast
  have copy: "re_match_scene ''barn.escn.002'' = Some ''barn.escn''"
    by (simp add: re_match_scene_def scene_suffix_at_def)
  then have suffix: "contains_scene_suffix (name (example_empty ''barn.escn.002''))"
    using re_match_scene_iff [of "''barn.escn.002''"] by (simp add: example_empty_def)
  have found: "fst (find_scene example_env example_settings ''barn.escn'') =
      Some (''/proj/scenes/barn.escn'', ''PackedScene'')"
    by (simp add: resolver_eval)
  note at_copy =
    export_empty_node_lookup [OF enabled, of "example_empty ''barn.escn.002''" example_env
      empty_state None]
  from at_copy suffix obtain scene_name where
    "re_match_scene (name (example_empty ''barn.escn.002'')) = Some scene_name"
    and outcome: "case fst (find_scene example_env example_settings scene_name) of
        None \<Rightarrow>
          export_empty_node example_env empty_state example_settings
              (example_empty ''barn.escn.002'') None =
            (Some (spatial_node (example_empty ''barn.escn.002'') None),
             add_node (logging_warning empty_state (unable_to_find scene_name))
               (spatial_node (example_empty ''barn.escn.002'') None))
      | Some found \<Rightarrow>
          (\<exists>resource_id.
             fst (export_empty_node example_env empty_state example_settings
                    (example_empty ''barn.escn.002'') None) =
               Some (instance_node (example_empty ''barn.escn.002'')
                       (ext_resource_token resource_id) None))"
    by blast
  then have "scene_name = ''barn.escn''" using copy by (simp add: example_empty_def)
  with outcome found have made: "\<exists>resource_id.
      fst (export_empty_node example_env empty_state example_settings
             (example_empty ''barn.escn.002'') None) =
        Some (instance_node (example_empty ''barn.escn.002'')
                (ext_resource_token resource_id) None)"
    by simp
  show ?thesis
    using enabled plain spatial whole ends copy suffix made
    by (simp add: example_empty_def empty_state_def add_node_def)
qed

text \<open>Claim C7 as the spec states it fails on a name that carries a scene-file suffix
  in the middle, such as the copy \<^verbatim>\<open>house.tscn.001\<close> of a placeholder: the name does
  not end in the suffix, yet the scene \<^verbatim>\<open>house.tscn\<close> is looked up and an instance node
  is made. It also fails where placeholder export is disabled: the entity \<^verbatim>\<open>crate\<close>,
  whose name has no suffix, does not become a spatial node.\<close>

theorem export_empty_node_lookup_counterexample:
  "\<not> spec_ends_in_scene_suffix (name (example_empty ''house.tscn.001'')) \<and>
   export_empty_node example_env empty_state example_settings
       (example_empty ''house.tscn.001'') None =
     (Some (GdNode ''house.tscn.001'' (InstanceOf ''ExtResource(1)'') None
              [(''transform'', PyMatrix [])]),
      \<lparr>document =
         \<lparr>nodes = [GdNode ''house.tscn.001'' (InstanceOf ''ExtResource(1)'') None
                     [(''transform'', PyMatrix [])]],
          external_resources =
            [(''house.tscn'', ExternalResource ''/proj/house.tscn'' ''PackedScene'')]\<rparr>,
       warnings = [''Multiple scenes found for house.tscn''], animation_exports = []\<rparr>) \<and>
   \<not> spec_ends_in_scene_suffix (name (example_empty ''crate'')) \<and>
   export_empty_node example_env empty_state (example_settings\<lparr>object_types := {''MESH''}\<rparr>)
       (example_empty ''crate'') None =
     (None,
      \<lparr>document = \<lparr>nodes = [], external_resources = []\<rparr>, warnings = [],
       animation_exports = []\<rparr>)"
  by (simp add: spec_ends_in_scene_suffix_def placeholder_eval resolver_eval)

text \<open>Claim C10, as the code has it. \<^verbatim>\<open>export_empty_node\<close> never calls the animation
  exporter. Its effects on the document are at most one added node, the one it
  returns, and at most one registration of an external resource, made when the
  entity's name resolves to a scene that the document does not hold yet. The camera
  converter calls the animation exporter on every call, and the light converter on
  every call that returns, which it does unless the spot blend conversion divides by
  zero.\<close>

theorem export_empty_node_effects:
  "animation_exports (snd (export_empty_node env st settings node parent_gd_node)) =
     animation_exports st \<and>
   (nodes (document (snd (export_empty_node env st settings node parent_gd_node))) =
      nodes (document st) \<or>
    (\<exists>n. fst (export_empty_node env st settings node parent_gd_node) = Some n \<and>
       nodes (document (snd (export_empty_node env st settings node parent_gd_node))) =
         nodes (document st) @ [n])) \<and>
   (external_resources (document (snd (export_empty_node env st settings node parent_gd_node))) =
      external_resources (document st) \<or>
    (\<exists>scene_name found.
       re_match_scene (name node) = Some scene_name \<and>
       fst (find_scene env settings scene_name) = Some found \<and>
       get_external_resource (document st) scene_name = None \<and>
       external_resources (document (snd (export_empty_node env st settings node parent_gd_node))) =
         external_resources (document st) @
           [(scene_name, ExternalResource (fst found) (snd found))])) \<and>
   (\<exists>cam st'.
      export_camera_node env st settings camera_object parent_gd_node = Inr (cam, st') \<and>
      animation_exports st' =
        animation_exports st @ [(Some cam, CameraData (data camera_object), ''camera'')]) \<and>
   (\<forall>r st'.
      export_light_node env st settings light_object parent_gd_node = Inr (r, st') \<longrightarrow>
      animation_exports st' =
        animation_exports st @ [(r, LightData (data light_object), ''light'')]) \<and>
   (spot_blend (data light_object) + 0.01 \<noteq> 0 \<longrightarrow>
      (\<exists>r st'. export_light_node env st settings light_object parent_gd_node = Inr (r, st')))"
proof -
  let ?R = "export_empty_node env st settings node parent_gd_node"
  have empty: "animation_exports (snd ?R) = animation_exports st \<and>
     (nodes (document (snd ?R)) = nodes (document st) \<or>
      (\<exists>n. fst ?R = Some n \<and> nodes (document (snd ?R)) = nodes (document st) @ [n])) \<and>
     (external_resources (document (snd ?R)) = external_resources (document st) \<or>
      (\<exists>scene_name found.
         re_match_scene (name node) = Some scene_name \<and>
         fst (find_scene env settings scene_name) = Some found \<and>
         get_external_resource (document st) scene_name = None \<and>
         external_resources (document (snd ?R)) =
           external_resources (document st) @
             [(scene_name, ExternalResource (fst found) (snd found))]))"
  proof (cases "''EMPTY'' \<in> object_types settings")
    case False
    then show ?thesis by (simp add: export_empty_node_def)
  next
    case enabled: True
    show ?thesis
    proof (cases "re_match_scene (name node)")
      case None
      show ?thesis
        unfolding export_empty_node_no_match [OF enabled None] by (simp add: add_node_def)
    next
      case (Some scene_name)
      show ?thesis
      proof (cases "fst (find_scene env settings scene_name)")
        case None
        show ?thesis
          unfolding export_empty_node_not_found [OF enabled Some None]
          by (simp add: add_node_def logging_warning_def)
      next
        case found: (Some found)
        from use_external_scene_found [OF found, of st] obtain rid st1 where
          u: "use_external_scene env st settings scene_name = (Some (ext_resource_token rid), st1)"
          and a: "animation_exports st1 = animation_exports st"
          and n: "nodes (document st1) = nodes (document st)"
          and e: "external_resources (document st1) =
             (case get_external_resource (document st) scene_name of
                Some registered \<Rightarrow> external_resources (document st)
              | None \<Rightarrow>
                  external_resources (document st) @
                    [(scene_name, ExternalResource (fst found) (snd found))])"
          by blast
        show ?thesis
          unfolding export_empty_node_instance [OF enabled Some u]
          using a n e Some found by (auto simp: add_node_def split: option.splits)
      qed
    qed
  qed
  show ?thesis
    using empty export_camera_node_delegates [of env st settings camera_object parent_gd_node]
      export_light_node_delegates [of env st settings light_object parent_gd_node]
      export_light_node_returns [of light_object env st settings parent_gd_node]
    by blast
qed

theorem export_empty_node_effects_witness:
  "animation_exports (snd (export_empty_node example_env empty_state example_settings
                             (example_empty ''house.tscn'') None)) = [] \<and>
   (\<exists>cam st'.
      export_camera_node example_env empty_state example_settings (example_camera ''PERSP'') None
        = Inr (cam, st') \<and>
      animation_exports st' = [(Some cam, CameraData (data (example_camera ''PERSP'')), ''camera'')]) \<and>
   spot_blend (data (example_light ''SPOT'' 100)) + 0.01 \<noteq> 0 \<and>
   (\<exists>r st'.
      export_light_node example_env empty_state example_settings (example_light ''SPOT'' 100) None
        = Inr (r, st') \<and>
      animation_exports st' = [(r, LightData (data (example_light ''SPOT'' 100)), ''light'')])"
proof -
  note effects =
    export_empty_node_effects [of example_env empty_state example_settings
      "example_empty ''house.tscn''" None "example_camera ''PERSP''" "example_light ''SPOT'' 100"]
  have blend: "spot_blend (data (example_light ''SPOT'' 100)) + 0.01 \<noteq> 0"
    by (simp add: example_light_def)
  have quiet: "animation_exports empty_state = []" by (simp add: empty_state_def)
  from effects blend obtain r st' where
    returned: "export_light_node example_env empty_state example_settings
        (example_light ''SPOT'' 100) None = Inr (r, st')"
    by blast
  with effects have "animation_exports st' =
      animation_exports empty_state @ [(r, LightData (data (example_light ''SPOT'' 100)), ''light'')]"
    by blast
  with returned have light: "\<exists>r st'.
      export_light_node example_env empty_state example_settings (example_light ''SPOT'' 100) None
        = Inr (r, st') \<and>
      animation_exports st' = [(r, LightData (data (example_light ''SPOT'' 100)), ''light'')]"
    using quiet by auto
  show ?thesis
    using effects blend light quiet by auto
qed

text \<open>Claim C10 as stated, that adding the node is the only effect on the document,
  fails on a placeholder that resolves to a scene the document does not hold yet:
  the document gains the registration of \<^verbatim>\<open>barn.escn\<close> besides the instance node.\<close>

theorem export_empty_node_effects_counterexample:
  "document empty_state = \<lparr>nodes = [], external_resources = []\<rparr> \<and>
   document (snd (export_empty_node example_env empty_state example_settings
                    (example_empty ''barn.escn'') None)) =
     \<lparr>nodes = [GdNode ''barn.escn'' (InstanceOf ''ExtResource(1)'') None
                 [(''transform'', PyMatrix [])]],
      external_resources =
        [(''barn.escn'', ExternalResource ''/proj/scenes/barn.escn'' ''PackedScene'')]\<rparr>"
  by (simp add: placeholder_eval resolver_eval)

end
